theory Spec2Isabelle
  imports Complex_Main "HOL-Library.Multiset" "HOL-Library.Char_ord"
    "HOL-Library.List_Lexorder" "HOL-Library.Option_ord" "HOL-Library.Product_Lexorder"
begin

section \<open>Seed data generator (scripts/seed-data.js)\<close>

text \<open>
  The generator draws from \<^verbatim>\<open>Math.random()\<close>.  The random source is made explicit:
  a stream of draws \<open>rnd :: nat \<Rightarrow> real\<close> together with the position of the next
  unread draw, which every function that draws returns updated.  A draw is a real number;
  a double in \<open>[0,1)\<close> is one, and the product and sum of the source are taken exactly.
\<close>

type_synonym rng = "nat \<Rightarrow> real"

record scores =
  numeracy :: int
  reading :: int
  computer :: int
  logic :: int
  communication :: int
  mindset :: int

record pillar_config =
  max_score :: int
  weakThreshold :: int

text \<open>\<^verbatim>\<open>PILLAR_CONFIG\<close>, one constant per key of the object.\<close>

definition cfg_numeracy :: pillar_config where
  "cfg_numeracy = \<lparr>max_score = 10, weakThreshold = 4\<rparr>"

definition cfg_reading :: pillar_config where
  "cfg_reading = \<lparr>max_score = 5, weakThreshold = 2\<rparr>"

definition cfg_computer :: pillar_config where
  "cfg_computer = \<lparr>max_score = 10, weakThreshold = 4\<rparr>"

definition cfg_logic :: pillar_config where
  "cfg_logic = \<lparr>max_score = 8, weakThreshold = 3\<rparr>"

definition cfg_communication :: pillar_config where
  "cfg_communication = \<lparr>max_score = 5, weakThreshold = 2\<rparr>"

definition cfg_mindset :: pillar_config where
  "cfg_mindset = \<lparr>max_score = 7, weakThreshold = 3\<rparr>"

record tier =
  level :: int
  title :: string
  probability :: real

definition READINESS_DISTRIBUTION :: "tier list" where
  "READINESS_DISTRIBUTION =
     [\<lparr>level = 1, title = ''Ready to Start'', probability = 15 / 100\<rparr>,
      \<lparr>level = 2, title = ''Ready with Quick Prep'', probability = 40 / 100\<rparr>,
      \<lparr>level = 3, title = ''Need Foundation Work'', probability = 25 / 100\<rparr>,
      \<lparr>level = 4, title = ''Need Comprehensive Prep'', probability = 15 / 100\<rparr>,
      \<lparr>level = 5, title = ''Not Yet Ready'', probability = 5 / 100\<rparr>]"

text \<open>\<^verbatim>\<open>WEAKNESS_TARGETS\<close>.\<close>

definition target_reading :: real where "target_reading = 68 / 100"
definition target_communication :: real where "target_communication = 62 / 100"
definition target_logic :: real where "target_logic = 45 / 100"
definition target_numeracy :: real where "target_numeracy = 30 / 100"
definition target_computer :: real where "target_computer = 25 / 100"
definition target_mindset :: real where "target_mindset = 20 / 100"

text \<open>
  \<^verbatim>\<open>randomInt(min, max)\<close> is \<^verbatim>\<open>Math.floor(Math.random() * (max - min + 1)) + min\<close>;
  \<open>randomIntOf\<close> is the arithmetic on one draw, \<open>randomInt\<close> reads the draw from the
  source and advances it.
\<close>

definition randomIntOf :: "int \<Rightarrow> int \<Rightarrow> real \<Rightarrow> int" where
  "randomIntOf mn mx r = \<lfloor>r * of_int (mx - mn + 1)\<rfloor> + mn"

definition randomInt :: "int \<Rightarrow> int \<Rightarrow> rng \<Rightarrow> nat \<Rightarrow> int \<times> nat" where
  "randomInt mn mx rnd k = (randomIntOf mn mx (rnd k), Suc k)"

text \<open>
  \<^verbatim>\<open>selectReadinessLevel\<close>: the \<^verbatim>\<open>for\<close> loop over the distribution with its running
  sum is \<open>walkTiers\<close>, which returns \<open>None\<close> when the loop falls through; the
  function then returns the last entry.  The caller reads only \<^verbatim>\<open>level\<close> and
  \<^verbatim>\<open>title\<close> of the result, which is the pair returned here.  \<open>selectFrom\<close> is the
  body of the function with the distribution it walks as an argument, so that it can be
  run on probabilities other than the configured ones.
\<close>

fun walkTiers :: "real \<Rightarrow> real \<Rightarrow> tier list \<Rightarrow> tier option" where
  "walkTiers rand cumulative [] = None"
| "walkTiers rand cumulative (config # rest) =
     (let cumulative' = cumulative + probability config
      in if rand \<le> cumulative' then Some config else walkTiers rand cumulative' rest)"

definition selectFrom :: "tier list \<Rightarrow> real \<Rightarrow> int \<times> string" where
  "selectFrom tiers rand =
     (case walkTiers rand 0 tiers of
        Some config \<Rightarrow> (level config, title config)
      | None \<Rightarrow>
          (let fallback = tiers ! (length tiers - 1)
           in (level fallback, title fallback)))"

definition selectReadinessLevelOf :: "real \<Rightarrow> int \<times> string" where
  "selectReadinessLevelOf rand = selectFrom READINESS_DISTRIBUTION rand"

definition selectReadinessLevel :: "rng \<Rightarrow> nat \<Rightarrow> (int \<times> string) \<times> nat" where
  "selectReadinessLevel rnd k = (selectReadinessLevelOf (rnd k), Suc k)"

text \<open>
  \<^verbatim>\<open>generateBaseScores(readinessLevel)\<close>: the object literal of six base draws
  (\<open>baseDraw\<close>), then the \<^verbatim>\<open>if / else if\<close> chain on the level (\<open>tierAdjust\<close>), each
  branch drawing in the order of its assignments.
\<close>

definition baseDraw :: "rng \<Rightarrow> nat \<Rightarrow> scores \<times> nat" where
  "baseDraw rnd k =
     (let (n, k) = randomInt 2 (max_score cfg_numeracy) rnd k;
          (r, k) = randomInt 1 (max_score cfg_reading) rnd k;
          (c, k) = randomInt 2 (max_score cfg_computer) rnd k;
          (l, k) = randomInt 2 (max_score cfg_logic) rnd k;
          (m, k) = randomInt 1 (max_score cfg_communication) rnd k;
          (s, k) = randomInt 2 (max_score cfg_mindset) rnd k
      in (\<lparr>numeracy = n, reading = r, computer = c, logic = l,
           communication = m, mindset = s\<rparr>, k))"

definition tierAdjust :: "int \<Rightarrow> scores \<Rightarrow> rng \<Rightarrow> nat \<Rightarrow> scores \<times> nat" where
  "tierAdjust readinessLevel sc rnd k =
     (if readinessLevel = 1 then
        (let (d, k) = randomInt 7 10 rnd k; sc = sc\<lparr>numeracy := max (numeracy sc) d\<rparr>;
             (d, k) = randomInt 4 5 rnd k; sc = sc\<lparr>reading := max (reading sc) d\<rparr>;
             (d, k) = randomInt 7 10 rnd k; sc = sc\<lparr>computer := max (computer sc) d\<rparr>;
             (d, k) = randomInt 6 8 rnd k; sc = sc\<lparr>logic := max (logic sc) d\<rparr>;
             (d, k) = randomInt 4 5 rnd k; sc = sc\<lparr>communication := max (communication sc) d\<rparr>;
             (d, k) = randomInt 5 7 rnd k; sc = sc\<lparr>mindset := max (mindset sc) d\<rparr>
         in (sc, k))
      else if readinessLevel = 2 then
        (let (d, k) = randomInt 5 8 rnd k; sc = sc\<lparr>numeracy := max (numeracy sc) d\<rparr>;
             (d, k) = randomInt 5 8 rnd k; sc = sc\<lparr>computer := max (computer sc) d\<rparr>;
             (d, k) = randomInt 4 6 rnd k; sc = sc\<lparr>mindset := max (mindset sc) d\<rparr>
         in (sc, k))
      else if readinessLevel = 4 then
        (let (d, k) = randomInt 3 6 rnd k; sc = sc\<lparr>numeracy := min (numeracy sc) d\<rparr>;
             (d, k) = randomInt 1 3 rnd k; sc = sc\<lparr>reading := min (reading sc) d\<rparr>;
             (d, k) = randomInt 2 4 rnd k; sc = sc\<lparr>logic := min (logic sc) d\<rparr>;
             (d, k) = randomInt 1 3 rnd k; sc = sc\<lparr>communication := min (communication sc) d\<rparr>
         in (sc, k))
      else if readinessLevel = 5 then
        (let (d, k) = randomInt 1 4 rnd k; sc = sc\<lparr>numeracy := min (numeracy sc) d\<rparr>;
             (d, k) = randomInt 0 2 rnd k; sc = sc\<lparr>reading := min (reading sc) d\<rparr>;
             (d, k) = randomInt 1 4 rnd k; sc = sc\<lparr>computer := min (computer sc) d\<rparr>;
             (d, k) = randomInt 1 3 rnd k; sc = sc\<lparr>logic := min (logic sc) d\<rparr>;
             (d, k) = randomInt 0 2 rnd k; sc = sc\<lparr>communication := min (communication sc) d\<rparr>;
             (d, k) = randomInt 1 3 rnd k; sc = sc\<lparr>mindset := min (mindset sc) d\<rparr>
         in (sc, k))
      else (sc, k))"

definition generateBaseScores :: "int \<Rightarrow> rng \<Rightarrow> nat \<Rightarrow> scores \<times> nat" where
  "generateBaseScores readinessLevel rnd k =
     (let (sc, k) = baseDraw rnd k in tierAdjust readinessLevel sc rnd k)"

text \<open>
  \<^verbatim>\<open>enforcePatterns(scores)\<close>: six independent tests of a fresh draw against the
  pillar's target, in the order reading, communication, logic, numeracy, computer, mindset.
\<close>

definition enforcePatterns :: "scores \<Rightarrow> rng \<Rightarrow> nat \<Rightarrow> scores \<times> nat" where
  "enforcePatterns sc rnd k =
     (let sc = (if rnd k < target_reading
                then sc\<lparr>reading := min (reading sc) (weakThreshold cfg_reading)\<rparr> else sc);
          sc = (if rnd (k + 1) < target_communication
                then sc\<lparr>communication := min (communication sc) (weakThreshold cfg_communication)\<rparr>
                else sc);
          sc = (if rnd (k + 2) < target_logic
                then sc\<lparr>logic := min (logic sc) (weakThreshold cfg_logic)\<rparr> else sc);
          sc = (if rnd (k + 3) < target_numeracy
                then sc\<lparr>numeracy := min (numeracy sc) (weakThreshold cfg_numeracy)\<rparr> else sc);
          sc = (if rnd (k + 4) < target_computer
                then sc\<lparr>computer := min (computer sc) (weakThreshold cfg_computer)\<rparr> else sc);
          sc = (if rnd (k + 5) < target_mindset
                then sc\<lparr>mindset := min (mindset sc) (weakThreshold cfg_mindset)\<rparr> else sc)
      in (sc, k + 6))"

text \<open>
  One iteration of the loop of \<^verbatim>\<open>seedDatabase\<close>, up to the values bound into the
  \<^verbatim>\<open>INSERT\<close>: tier selection, base scores with tier adjustment, weakness enforcement.
  The session identifier and the timestamp do not enter any score.
\<close>

record generated =
  g_scores :: scores
  g_level :: int
  g_title :: string

definition generateRecord :: "rng \<Rightarrow> nat \<Rightarrow> generated \<times> nat" where
  "generateRecord rnd k =
     (let (readinessData, k) = selectReadinessLevel rnd k;
          (sc, k) = generateBaseScores (fst readinessData) rnd k;
          (sc, k) = enforcePatterns sc rnd k
      in (\<lparr>g_scores = sc, g_level = fst readinessData, g_title = snd readinessData\<rparr>, k))"

text \<open>The bound the generator is to respect, pillar by pillar.\<close>

definition in_range :: "pillar_config \<Rightarrow> int \<Rightarrow> bool" where
  "in_range cfg v \<longleftrightarrow> 0 \<le> v \<and> v \<le> max_score cfg"

definition scores_in_range :: "scores \<Rightarrow> bool" where
  "scores_in_range sc \<longleftrightarrow>
     in_range cfg_numeracy (numeracy sc) \<and> in_range cfg_reading (reading sc) \<and>
     in_range cfg_computer (computer sc) \<and> in_range cfg_logic (logic sc) \<and>
     in_range cfg_communication (communication sc) \<and> in_range cfg_mindset (mindset sc)"

definition unit_draws :: "rng \<Rightarrow> bool" where
  "unit_draws rnd \<longleftrightarrow> (\<forall>i. 0 \<le> rnd i \<and> rnd i < 1)"

text \<open>Pointwise comparison of two score vectors.\<close>

definition scores_le :: "scores \<Rightarrow> scores \<Rightarrow> bool" where
  "scores_le a b \<longleftrightarrow>
     numeracy a \<le> numeracy b \<and> reading a \<le> reading b \<and> computer a \<le> computer b \<and>
     logic a \<le> logic b \<and> communication a \<le> communication b \<and> mindset a \<le> mindset b"

text \<open>
  The running sum of the loop after it has added entry \<open>i\<close> of a distribution, and the
  distributions that have the configured levels and titles, whatever their probabilities
  (the running sums that floating-point addition produces are the exact sums of such a
  distribution).
\<close>

definition cumulativeOf :: "tier list \<Rightarrow> nat \<Rightarrow> real" where
  "cumulativeOf tiers i = sum_list (map probability (take (Suc i) tiers))"

definition sameTiers :: "tier list \<Rightarrow> bool" where
  "sameTiers tiers \<longleftrightarrow>
     map level tiers = map level READINESS_DISTRIBUTION \<and>
     map title tiers = map title READINESS_DISTRIBUTION"

text \<open>A distribution whose probabilities fall short of 1, to reach the fallback.\<close>

definition driftedDistribution :: "tier list" where
  "driftedDistribution =
     map (\<lambda>t. t\<lparr>probability := probability t - 1 / 1000\<rparr>) READINESS_DISTRIBUTION"

section \<open>Stored rows and JavaScript numbers\<close>

text \<open>
  A value stored in a column of the table.  SQLite keeps any of its storage classes in
  any column: \<^verbatim>\<open>NULL\<close>, an integer, a floating-point number, a text, or a blob
  (its bytes); the numbers are given as JavaScript reads them.  The score columns and
  \<^verbatim>\<open>readiness_level\<close> are declared \<^verbatim>\<open>INTEGER\<close>, which turns what reads as an integer
  into one and keeps every other value as it is, so that a floating-point number in them
  is not an integer that fits 64 bits.
\<close>

datatype cell = Null | IntCell int | RealCell real | TextCell string | BlobCell "nat list"

text \<open>
  One row of the table \<^verbatim>\<open>assessments\<close> as created in \<^verbatim>\<open>initDb\<close>.  The seven
  numeric columns hold cells: the \<^verbatim>\<open>INSERT\<close> of \<^verbatim>\<open>insertAssessment\<close> binds whatever
  score it is given.  \<^verbatim>\<open>session_id\<close> and \<^verbatim>\<open>timestamp\<close>, which every insert of the
  repository fills with a text, and the title are given as the text JavaScript makes of
  them (\<open>None\<close> for \<^verbatim>\<open>NULL\<close>; \<^verbatim>\<open>session_id\<close> is \<^verbatim>\<open>NOT NULL\<close>; a title stored as a
  blob is the text of its bytes in decimal, joined by commas).
\<close>

record row =
  session_id :: string
  timestamp :: "string option"
  numeracy_score :: cell
  reading_score :: cell
  computer_score :: cell
  logic_score :: cell
  communication_score :: cell
  mindset_score :: cell
  readiness_level :: cell
  readiness_title :: "string option"
  user_ip_hash :: "string option"
  consent_given :: "int option"


text \<open>
  A JavaScript number: a finite value, one of the two infinities, or \<^verbatim>\<open>NaN\<close>.  Finite
  values are reals (rounding and the sign of zero are not modelled).  The operations
  follow IEEE 754 on the special values.
\<close>

datatype jsnum = NaN | PosInf | NegInf | Fin real

fun js_div :: "jsnum \<Rightarrow> jsnum \<Rightarrow> jsnum" where
  "js_div (Fin a) (Fin b) =
     (if b \<noteq> 0 then Fin (a / b)
      else if a = 0 then NaN else if 0 < a then PosInf else NegInf)"
| "js_div (Fin a) PosInf = Fin 0"
| "js_div (Fin a) NegInf = Fin 0"
| "js_div PosInf (Fin b) = (if 0 \<le> b then PosInf else NegInf)"
| "js_div NegInf (Fin b) = (if 0 \<le> b then NegInf else PosInf)"
| "js_div _ _ = NaN"

fun js_mul :: "jsnum \<Rightarrow> jsnum \<Rightarrow> jsnum" where
  "js_mul (Fin a) (Fin b) = Fin (a * b)"
| "js_mul PosInf (Fin b) = (if b = 0 then NaN else if 0 < b then PosInf else NegInf)"
| "js_mul NegInf (Fin b) = (if b = 0 then NaN else if 0 < b then NegInf else PosInf)"
| "js_mul (Fin a) PosInf = (if a = 0 then NaN else if 0 < a then PosInf else NegInf)"
| "js_mul (Fin a) NegInf = (if a = 0 then NaN else if 0 < a then NegInf else PosInf)"
| "js_mul PosInf PosInf = PosInf"
| "js_mul NegInf NegInf = PosInf"
| "js_mul PosInf NegInf = NegInf"
| "js_mul NegInf PosInf = NegInf"
| "js_mul _ _ = NaN"

fun js_sub :: "jsnum \<Rightarrow> jsnum \<Rightarrow> jsnum" where
  "js_sub (Fin a) (Fin b) = Fin (a - b)"
| "js_sub PosInf (Fin b) = PosInf"
| "js_sub NegInf (Fin b) = NegInf"
| "js_sub (Fin a) PosInf = NegInf"
| "js_sub (Fin a) NegInf = PosInf"
| "js_sub PosInf NegInf = PosInf"
| "js_sub NegInf PosInf = NegInf"
| "js_sub _ _ = NaN"

text \<open>\<open>js_gt a b\<close> is \<^verbatim>\<open>a > b\<close>: false as soon as one side is \<^verbatim>\<open>NaN\<close>.\<close>

fun js_gt :: "jsnum \<Rightarrow> jsnum \<Rightarrow> bool" where
  "js_gt (Fin a) (Fin b) \<longleftrightarrow> b < a"
| "js_gt PosInf (Fin b) \<longleftrightarrow> True"
| "js_gt PosInf NegInf \<longleftrightarrow> True"
| "js_gt (Fin a) NegInf \<longleftrightarrow> True"
| "js_gt _ _ \<longleftrightarrow> False"

text \<open>\<^verbatim>\<open>ToNumber\<close> of a value that is a number or \<^verbatim>\<open>null\<close>: \<^verbatim>\<open>null\<close> becomes 0.\<close>

fun toNumber :: "real option \<Rightarrow> jsnum" where
  "toNumber None = Fin 0"
| "toNumber (Some x) = Fin x"

text \<open>
  \<^verbatim>\<open>Array.prototype.sort(cmp)\<close>: a stable sort in which \<open>a\<close> is placed after \<open>b\<close> only
  when \<^verbatim>\<open>cmp(a, b) > 0\<close>; a comparator result of \<^verbatim>\<open>NaN\<close> counts as 0.  It is modelled
  as the stable insertion sort.
\<close>

fun js_insort :: "('a \<Rightarrow> 'a \<Rightarrow> jsnum) \<Rightarrow> 'a \<Rightarrow> 'a list \<Rightarrow> 'a list" where
  "js_insort cmp x [] = [x]"
| "js_insort cmp x (y # ys) =
     (if js_gt (cmp x y) (Fin 0) then y # js_insort cmp x ys else x # y # ys)"

definition js_sort :: "('a \<Rightarrow> 'a \<Rightarrow> jsnum) \<Rightarrow> 'a list \<Rightarrow> 'a list" where
  "js_sort cmp xs = foldr (js_insort cmp) xs []"

section \<open>Pattern verification script (scripts/verify-patterns.js)\<close>

record pillar =
  p_name :: string
  p_column :: "row \<Rightarrow> cell"
  p_threshold :: int
  p_max :: int

definition PILLARS :: "pillar list" where
  "PILLARS =
     [\<lparr>p_name = ''Reading'', p_column = reading_score, p_threshold = 2, p_max = 5\<rparr>,
      \<lparr>p_name = ''Communication'', p_column = communication_score, p_threshold = 2, p_max = 5\<rparr>,
      \<lparr>p_name = ''Logic'', p_column = logic_score, p_threshold = 3, p_max = 8\<rparr>,
      \<lparr>p_name = ''Numeracy'', p_column = numeracy_score, p_threshold = 4, p_max = 10\<rparr>,
      \<lparr>p_name = ''Computer'', p_column = computer_score, p_threshold = 4, p_max = 10\<rparr>,
      \<lparr>p_name = ''Mindset'', p_column = mindset_score, p_threshold = 3, p_max = 7\<rparr>]"

text \<open>
  The queries, over the table as a list of rows.  In \<^verbatim>\<open>col <= t\<close> a number is compared
  by value, a text or a blob is greater than every number, and \<^verbatim>\<open>NULL\<close> satisfies no
  comparison.  \<^verbatim>\<open>AVG(col)\<close> is the mean over the values that are not \<^verbatim>\<open>NULL\<close>, and
  \<^verbatim>\<open>NULL\<close> when there is none; the number the engine reads a text or a blob as is
  the parameter \<open>asNumber\<close>.
\<close>

definition sqlCountAll :: "row list \<Rightarrow> nat" where
  "sqlCountAll rows = length rows"

fun sqlLessEq :: "cell \<Rightarrow> int \<Rightarrow> bool" where
  "sqlLessEq (IntCell v) t \<longleftrightarrow> v \<le> t"
| "sqlLessEq (RealCell x) t \<longleftrightarrow> x \<le> of_int t"
| "sqlLessEq _ t \<longleftrightarrow> False"

definition sqlCountWeak :: "(row \<Rightarrow> cell) \<Rightarrow> int \<Rightarrow> row list \<Rightarrow> nat" where
  "sqlCountWeak col t rows = length (filter (\<lambda>r. sqlLessEq (col r) t) rows)"

fun sqlValue :: "(cell \<Rightarrow> real) \<Rightarrow> cell \<Rightarrow> real" where
  "sqlValue asNumber (IntCell v) = of_int v"
| "sqlValue asNumber (RealCell x) = x"
| "sqlValue asNumber c = asNumber c"

definition sqlAvg :: "(cell \<Rightarrow> real) \<Rightarrow> (row \<Rightarrow> cell) \<Rightarrow> row list \<Rightarrow> real option" where
  "sqlAvg asNumber col rows =
     (let vs = filter (\<lambda>c. c \<noteq> Null) (map col rows)
      in if vs = [] then None
         else Some (sum_list (map (sqlValue asNumber) vs) / of_nat (length vs)))"

text \<open>
  \<^verbatim>\<open>GROUP BY readiness_level ORDER BY readiness_level\<close>: one result row per distinct
  level with the size of its group, in the order of the engine: \<^verbatim>\<open>NULL\<close>, then the
  numbers by value, then the texts, then the blobs, each by their bytes.  \<open>cellKey\<close> gives
  a value its place in that order; two values are the same level when their keys are equal
  (an integer and the same number stored as a real are).  The level and the title printed
  with a group are those of one of its rows, whichever the engine takes; the result here
  holds the key and the size of each group.  With no row in the table the result set is
  empty.
\<close>

type_synonym sqlkey = "nat \<times> real \<times> string \<times> nat list"

fun cellKey :: "cell \<Rightarrow> sqlkey" where
  "cellKey Null = (0, 0, [], [])"
| "cellKey (IntCell v) = (1, of_int v, [], [])"
| "cellKey (RealCell x) = (1, x, [], [])"
| "cellKey (TextCell s) = (2, 0, s, [])"
| "cellKey (BlobCell b) = (3, 0, [], b)"

definition sqlLevels :: "row list \<Rightarrow> sqlkey list" where
  "sqlLevels rows = sort (remdups (map (\<lambda>r. cellKey (readiness_level r)) rows))"

definition sqlGroupByLevel :: "row list \<Rightarrow> (sqlkey \<times> nat) list" where
  "sqlGroupByLevel rows =
     map (\<lambda>k. (k, length (filter (\<lambda>r. cellKey (readiness_level r) = k) rows)))
       (sqlLevels rows)"

record pillar_stat =
  ps_name :: string
  weakCount :: nat
  weakPct :: jsnum
  avgScore :: "real option"
  ps_max :: int
  avgPct :: jsnum

text \<open>The body of the loop over \<^verbatim>\<open>PILLARS\<close>: the object pushed onto \<^verbatim>\<open>pillarStats\<close>.\<close>

definition pillarStat :: "(cell \<Rightarrow> real) \<Rightarrow> nat \<Rightarrow> row list \<Rightarrow> pillar \<Rightarrow> pillar_stat" where
  "pillarStat asNumber totalCount rows p =
     (let wc = sqlCountWeak (p_column p) (p_threshold p) rows;
          avg = sqlAvg asNumber (p_column p) rows
      in \<lparr>ps_name = p_name p,
          weakCount = wc,
          weakPct = js_mul (js_div (Fin (of_nat wc)) (Fin (of_nat totalCount))) (Fin 100),
          avgScore = avg,
          ps_max = p_max p,
          avgPct = js_mul (js_div (toNumber avg) (Fin (of_int (p_max p)))) (Fin 100)\<rparr>)"

definition pillarStats :: "(cell \<Rightarrow> real) \<Rightarrow> row list \<Rightarrow> pillar_stat list" where
  "pillarStats asNumber rows = map (pillarStat asNumber (sqlCountAll rows) rows) PILLARS"

text \<open>\<^verbatim>\<open>pillarStats.sort((a, b) => b.weakPct - a.weakPct)\<close>.\<close>

definition cmpWeakPct :: "pillar_stat \<Rightarrow> pillar_stat \<Rightarrow> jsnum" where
  "cmpWeakPct a b = js_sub (weakPct b) (weakPct a)"

definition rankStats :: "(cell \<Rightarrow> real) \<Rightarrow> row list \<Rightarrow> pillar_stat list" where
  "rankStats asNumber rows = js_sort cmpWeakPct (pillarStats asNumber rows)"

definition marker :: "nat \<Rightarrow> string" where
  "marker index =
     (if index = 0 then '' <-- PRIMARY WEAKNESS''
      else if index = 1 then '' <-- SECONDARY'' else '''')"

text \<open>The percentage printed for one readiness group: \<^verbatim>\<open>(count / total) * 100\<close>.\<close>

definition levelPct :: "nat \<Rightarrow> nat \<Rightarrow> jsnum" where
  "levelPct totalCount groupCount =
     js_mul (js_div (Fin (of_nat groupCount)) (Fin (of_nat totalCount))) (Fin 100)"

datatype js_error = TypeError | RangeError | SqlError | BindError | InitError

record report =
  r_total :: nat
  r_readiness :: "(sqlkey \<times> nat \<times> jsnum) list"
  r_ranked :: "(string \<times> string) list"
  r_primary :: pillar_stat
  r_secondary :: pillar_stat

text \<open>
  \<^verbatim>\<open>Math.round(x)\<close> on a finite value, and the two bars of the last section:
  \<^verbatim>\<open>String.prototype.repeat\<close> throws a \<^verbatim>\<open>RangeError\<close> on a negative count.
\<close>

definition jsRound :: "real \<Rightarrow> int" where
  "jsRound x = \<lfloor>x + 1 / 2\<rfloor>"

fun barFits :: "jsnum \<Rightarrow> bool" where
  "barFits (Fin x) \<longleftrightarrow> 0 \<le> jsRound (x / 2) \<and> jsRound (x / 2) \<le> 50"
| "barFits NaN \<longleftrightarrow> True"
| "barFits _ \<longleftrightarrow> False"

text \<open>
  The loop that prints the ranked statistics.  For each entry it prints the name with
  the marker of its index, then the weak count, then \<^verbatim>\<open>stat.avgScore.toFixed(1)\<close>,
  which throws a \<^verbatim>\<open>TypeError\<close> when \<^verbatim>\<open>avgScore\<close> is \<^verbatim>\<open>null\<close>.  \<open>printRanked\<close>
  gives the name and marker lines printed, and the error that ended the loop, if any.
\<close>

fun printRanked :: "nat \<Rightarrow> pillar_stat list \<Rightarrow> (string \<times> string) list \<times> js_error option" where
  "printRanked index [] = ([], None)"
| "printRanked index (stat # rest) =
     (case avgScore stat of
        None \<Rightarrow> ([(ps_name stat, marker index)], Some TypeError)
      | Some avg \<Rightarrow>
          (let (printed, err) = printRanked (Suc index) rest
           in ((ps_name stat, marker index) # printed, err)))"

text \<open>
  \<^verbatim>\<open>analyzePatterns\<close>, as the numbers it prints when it runs to its end.  An error
  thrown by the loop above, or by a bar of the last section, rejects the promise of the
  function.
\<close>

definition analyzePatterns :: "(cell \<Rightarrow> real) \<Rightarrow> row list \<Rightarrow> js_error + report" where
  "analyzePatterns asNumber rows =
     (let totalCount = sqlCountAll rows;
          readiness = map (\<lambda>(l, c). (l, c, levelPct totalCount c)) (sqlGroupByLevel rows);
          stats = rankStats asNumber rows;
          (printed, err) = printRanked 0 stats
      in case err of
           Some e \<Rightarrow> Inl e
         | None \<Rightarrow>
             if \<exists>s \<in> set stats. \<not> barFits (avgPct s) then Inl RangeError
             else Inr \<lparr>r_total = totalCount,
                       r_readiness = readiness,
                       r_ranked = printed,
                       r_primary = stats ! 0,
                       r_secondary = stats ! 1\<rparr>)"

text \<open>The position of a pillar in \<^verbatim>\<open>PILLARS\<close>, by name (6 for a name that is not there).\<close>

fun indexOf :: "'a \<Rightarrow> 'a list \<Rightarrow> nat" where
  "indexOf x [] = 0"
| "indexOf x (y # ys) = (if x = y then 0 else Suc (indexOf x ys))"

definition declIndex :: "pillar_stat \<Rightarrow> nat" where
  "declIndex s = indexOf (ps_name s) (map p_name PILLARS)"

text \<open>
  The ranking order: strictly greater weakness rate first, and at equal rate the pillar
  declared earlier first.
\<close>

definition ranksBefore :: "pillar_stat \<Rightarrow> pillar_stat \<Rightarrow> bool" where
  "ranksBefore a b \<longleftrightarrow>
     js_gt (weakPct a) (weakPct b) \<or> (weakPct a = weakPct b \<and> declIndex a < declIndex b)"

section \<open>CSV export (api/export-csv.js)\<close>

definition comma :: char where "comma = CHR '',''"
definition dquote :: char where "dquote = CHR 0x22"
definition LF :: char where "LF = CHR 0x0A"
definition CR :: char where "CR = CHR 0x0D"

text \<open>
  \<^verbatim>\<open>String(n)\<close> for an integer-valued number: the decimal digits, with a minus sign for
  a negative one (numbers of magnitude \<open>10\<^sup>2\<^sup>1\<close> and more, which JavaScript prints with an
  exponent, do not fit a 64-bit column).
\<close>

definition digitChar :: "nat \<Rightarrow> char" where
  "digitChar d = ''0123456789'' ! d"

fun showNat :: "nat \<Rightarrow> string" where
  "showNat n = (if n < 10 then [digitChar n] else showNat (n div 10) @ [digitChar (n mod 10)])"

declare showNat.simps [simp del]

definition showInt :: "int \<Rightarrow> string" where
  "showInt i = (if i < 0 then CHR ''-'' # showNat (nat (- i)) else showNat (nat i))"


text \<open>
  \<^verbatim>\<open>x || ''\<close> on a text column and \<^verbatim>\<open>x ?? ''\<close> on a numeric column, each followed by
  the conversion to a string that \<^verbatim>\<open>join\<close> applies.  \<^verbatim>\<open>||\<close> replaces \<^verbatim>\<open>null\<close> and the
  empty string, \<^verbatim>\<open>??\<close> replaces \<^verbatim>\<open>null\<close> only, so a score of 0 is printed as \<^verbatim>\<open>0\<close>.
  The conversion prints an integer in decimal, leaves a text as it is, and prints a blob
  (a \<^verbatim>\<open>Uint8Array\<close>) as its bytes in decimal, joined by commas; what it prints for a
  floating-point number is the parameter \<open>numberText\<close>.
\<close>

fun orEmpty :: "string option \<Rightarrow> string" where
  "orEmpty None = ''''"
| "orEmpty (Some s) = (if s = '''' then '''' else s)"



definition needsQuotes :: "string \<Rightarrow> bool" where
  "needsQuotes stringValue \<longleftrightarrow>
     comma \<in> set stringValue \<or> dquote \<in> set stringValue \<or>
     LF \<in> set stringValue \<or> CR \<in> set stringValue"


definition headers :: "string list" where
  "headers =
     [''session_id'', ''timestamp'', ''numeracy_score'', ''reading_score'', ''computer_score'',
      ''logic_score'', ''communication_score'', ''mindset_score'', ''readiness_level'',
      ''readiness_title'']"





subsection \<open>Reading CSV back\<close>




text \<open>The first line of a text: what stands before its first line feed.\<close>

fun firstLine :: "string \<Rightarrow> string" where
  "firstLine [] = []"
| "firstLine (c # cs) = (if c = LF then [] else c # firstLine cs)"




text \<open>A text that can stand in a CSV field without quotes.\<close>

definition plain :: "string \<Rightarrow> bool" where
  "plain s \<longleftrightarrow> comma \<notin> set s \<and> dquote \<notin> set s \<and> LF \<notin> set s \<and> CR \<notin> set s"

subsection \<open>What the export is to give\<close>

text \<open>
  The record a reader expects for a row: its ten values in the order of the header, each
  as its text: nothing for \<^verbatim>\<open>NULL\<close>, an integer in decimal, a text as it is, a blob as
  its bytes in decimal separated by commas.
\<close>

fun shownText :: "string option \<Rightarrow> string" where
  "shownText None = []"
| "shownText (Some s) = s"

fun shownBytes :: "nat list \<Rightarrow> string" where
  "shownBytes [] = []"
| "shownBytes [b] = showNat b"
| "shownBytes (b # bs) = showNat b @ '','' @ shownBytes bs"

definition shownCell :: "(real \<Rightarrow> string) \<Rightarrow> cell \<Rightarrow> string" where
  "shownCell numberText c =
     (case c of
        Null \<Rightarrow> []
      | IntCell n \<Rightarrow> showInt n
      | RealCell x \<Rightarrow> numberText x
      | TextCell s \<Rightarrow> s
      | BlobCell b \<Rightarrow> shownBytes b)"

definition numericColumns :: "row \<Rightarrow> cell list" where
  "numericColumns r =
     [numeracy_score r, reading_score r, computer_score r, logic_score r,
      communication_score r, mindset_score r, readiness_level r]"

definition expectedRecord :: "(real \<Rightarrow> string) \<Rightarrow> row \<Rightarrow> string list" where
  "expectedRecord numberText r =
     session_id r # shownText (timestamp r) # map (shownCell numberText) (numericColumns r) @
     [shownText (readiness_title r)]"

text \<open>
  The title field as the quoting rule wants it: between double quotes, with each double
  quote of the title doubled, when the title holds a comma, a double quote or a line
  break, and the title itself otherwise.
\<close>

fun doubled :: "string \<Rightarrow> string" where
  "doubled [] = []"
| "doubled (c # cs) = (if c = dquote then dquote # dquote # doubled cs else c # doubled cs)"
















section \<open>Storage helpers (api/lib/db.js)\<close>

text \<open>
  The module keeps one in-memory database in its variable \<^verbatim>\<open>db\<close> and writes it to a
  file.  Its state here: whether \<^verbatim>\<open>db\<close> is set; the table of the database, that is
  whether it exists and its rows in the order of their insertion (while \<^verbatim>\<open>db\<close> is not
  set, the table of the database that opening loads); the rows last written to the file;
  whether the file can be written; whether loading fails (\<^verbatim>\<open>initSqlJs\<close> rejects, or no
  database can be constructed); whether the \<^verbatim>\<open>CREATE TABLE\<close> throws; whether the engine
  throws on the \<^verbatim>\<open>INSERT\<close> and on the \<^verbatim>\<open>SELECT\<close>; and the value of
  \<^verbatim>\<open>CURRENT_TIMESTAMP\<close>.
\<close>

record dbstate =
  db_open :: bool
  has_table :: bool
  db_table :: "row list"
  db_disk :: "row list"
  disk_writable :: bool
  load_fails :: bool
  create_fails :: bool
  engine_fails :: bool
  clock :: string

text \<open>
  A value handed to the \<^verbatim>\<open>INSERT\<close>, given as what the statement makes of it:
  \<open>Unbindable\<close> for a value that \<^verbatim>\<open>bind\<close> refuses by throwing (\<^verbatim>\<open>undefined\<close>, an object
  that is no array), and otherwise the value stored in its column: a number or a boolean
  as a number, a text as a text, or as the number it reads as in a numeric column, an
  array as a blob, \<^verbatim>\<open>null\<close> as \<^verbatim>\<open>NULL\<close>.
\<close>

datatype 'a param = Unbindable | Binds 'a

primrec binds :: "'a param \<Rightarrow> bool" where
  "binds Unbindable \<longleftrightarrow> False"
| "binds (Binds v) \<longleftrightarrow> True"

primrec bound :: "'a \<Rightarrow> 'a param \<Rightarrow> 'a" where
  "bound d Unbindable = d"
| "bound d (Binds v) = v"

text \<open>
  The argument of \<^verbatim>\<open>insertAssessment\<close>.  For the three text columns the stored value is
  the text read back from the column, \<open>None\<close> for \<^verbatim>\<open>NULL\<close>; \<^verbatim>\<open>consentGiven\<close> is used
  for its truth value only.
\<close>

record assessment =
  sessionId :: "string option param"
  numeracyScore :: "cell param"
  readingScore :: "cell param"
  computerScore :: "cell param"
  logicScore :: "cell param"
  communicationScore :: "cell param"
  mindsetScore :: "cell param"
  readinessLevel :: "cell param"
  readinessTitle :: "string option param"
  ipHash :: "string option param"
  consentGiven :: bool

text \<open>
  \<^verbatim>\<open>saveDb()\<close>: nothing without a database; the export and the file write sit in a
  \<^verbatim>\<open>try\<close> whose \<^verbatim>\<open>catch\<close> only logs, so a failed write leaves the file as it was and
  nothing is thrown.
\<close>

definition saveDb :: "dbstate \<Rightarrow> dbstate" where
  "saveDb st =
     (if db_open st \<and> disk_writable st
      then st\<lparr>db_disk := (if has_table st then db_table st else [])\<rparr> else st)"

text \<open>
  \<^verbatim>\<open>initDb()\<close>, awaited.  With \<^verbatim>\<open>db\<close> set it resolves at once.  Otherwise a failure to
  load rejects and leaves \<^verbatim>\<open>db\<close> unset; once the database is constructed \<^verbatim>\<open>db\<close> is
  set, and only then the \<^verbatim>\<open>CREATE TABLE IF NOT EXISTS\<close> runs: if it throws, the call
  rejects with \<^verbatim>\<open>db\<close> set and the table as it was, so that the next call resolves;
  otherwise the table exists, empty if it is new, and the database is saved.
  \<^verbatim>\<open>getDb()\<close> awaits \<^verbatim>\<open>initDb()\<close>.  The handle they resolve to is \<^verbatim>\<open>db\<close>, which the
  returned state stands for.
\<close>

definition initDb :: "dbstate \<Rightarrow> (js_error + unit) \<times> dbstate" where
  "initDb st =
     (if db_open st then (Inr (), st)
      else if load_fails st then (Inl InitError, st)
      else if create_fails st then (Inl SqlError, st\<lparr>db_open := True\<rparr>)
      else (Inr (),
            saveDb (st\<lparr>db_open := True, has_table := True,
                      db_table := (if has_table st then db_table st else [])\<rparr>)))"

definition getDb :: "dbstate \<Rightarrow> (js_error + unit) \<times> dbstate" where
  "getDb st = initDb st"

text \<open>
  \<^verbatim>\<open>database.run\<close> of the \<^verbatim>\<open>INSERT\<close>: it throws when the engine fails, when there is
  no table, when a value cannot be bound, and when \<^verbatim>\<open>session_id\<close> is \<^verbatim>\<open>NULL\<close>
  (\<^verbatim>\<open>NOT NULL\<close>) or already in the table (\<^verbatim>\<open>UNIQUE\<close>); otherwise the row is appended
  with the default timestamp.
\<close>

definition bindsAll :: "assessment \<Rightarrow> bool" where
  "bindsAll a \<longleftrightarrow>
     binds (sessionId a) \<and> binds (numeracyScore a) \<and> binds (readingScore a) \<and>
     binds (computerScore a) \<and> binds (logicScore a) \<and> binds (communicationScore a) \<and>
     binds (mindsetScore a) \<and> binds (readinessLevel a) \<and> binds (readinessTitle a) \<and>
     binds (ipHash a)"

definition runInsert :: "assessment \<Rightarrow> dbstate \<Rightarrow> js_error + dbstate" where
  "runInsert a st =
     (if engine_fails st \<or> \<not> has_table st then Inl SqlError
      else if \<not> bindsAll a then Inl BindError
      else case bound None (sessionId a) of
        None \<Rightarrow> Inl SqlError
      | Some sid \<Rightarrow>
          if sid \<in> set (map session_id (db_table st)) then Inl SqlError
          else Inr (st\<lparr>db_table := db_table st @
                 [\<lparr>session_id = sid, timestamp = Some (clock st),
                   numeracy_score = bound Null (numeracyScore a),
                   reading_score = bound Null (readingScore a),
                   computer_score = bound Null (computerScore a),
                   logic_score = bound Null (logicScore a),
                   communication_score = bound Null (communicationScore a),
                   mindset_score = bound Null (mindsetScore a),
                   readiness_level = bound Null (readinessLevel a),
                   readiness_title = bound None (readinessTitle a),
                   user_ip_hash = bound None (ipHash a),
                   consent_given = Some (if consentGiven a then 1 else 0)\<rparr>]\<rparr>))"

text \<open>
  \<^verbatim>\<open>insertAssessment\<close>.  The handle is awaited before the \<^verbatim>\<open>try\<close>, so a rejecting
  \<^verbatim>\<open>getDb\<close> rejects the call; inside the \<^verbatim>\<open>try\<close> a throwing \<^verbatim>\<open>run\<close> gives \<^verbatim>\<open>false\<close>,
  and otherwise the database is saved and the result is \<^verbatim>\<open>true\<close>.
\<close>

definition insertAssessment :: "assessment \<Rightarrow> dbstate \<Rightarrow> (js_error + bool) \<times> dbstate" where
  "insertAssessment a st =
     (case getDb st of
        (Inl e, database) \<Rightarrow> (Inl e, database)
      | (Inr u, database) \<Rightarrow>
          (case runInsert a database of
             Inl e \<Rightarrow> (Inr False, database)
           | Inr st' \<Rightarrow> (Inr True, saveDb st')))"

text \<open>
  \<^verbatim>\<open>database.exec\<close> of the \<^verbatim>\<open>SELECT ... ORDER BY timestamp DESC\<close>: it throws when the
  engine fails and when there is no table; it gives an empty array when no row is
  selected, and otherwise one result with the ten selected columns of every row, latest
  timestamp first, \<^verbatim>\<open>NULL\<close> timestamps last, and rows of equal timestamp in the order of
  their insertion.
\<close>

record sql_result =
  res_columns :: "string list"
  res_values :: "row list"

definition selectColumns :: "row \<Rightarrow> row" where
  "selectColumns r = r\<lparr>user_ip_hash := None, consent_given := None\<rparr>"

definition orderByTimestampDesc :: "row list \<Rightarrow> row list" where
  "orderByTimestampDesc rows = rev (sort_key timestamp (rev rows))"

definition execSelectAll :: "dbstate \<Rightarrow> js_error + sql_result list" where
  "execSelectAll st =
     (if engine_fails st \<or> \<not> has_table st then Inl SqlError
      else if db_table st = [] then Inr []
      else Inr [\<lparr>res_columns = headers,
                 res_values = map selectColumns (orderByTimestampDesc (db_table st))\<rparr>])"

definition getAllAssessments :: "dbstate \<Rightarrow> (js_error + row list) \<times> dbstate" where
  "getAllAssessments st =
     (case getDb st of
        (Inl e, database) \<Rightarrow> (Inl e, database)
      | (Inr u, database) \<Rightarrow>
          (case execSelectAll database of
             Inl e \<Rightarrow> (Inr [], database)
           | Inr results \<Rightarrow>
               (case results of
                  [] \<Rightarrow> (Inr [], database)
                | res # _ \<Rightarrow> (Inr (res_values res), database))))"

section \<open>Live quiz endpoint (api/chat.js)\<close>

text \<open>
  The request: its method and its body.  In the body, \<open>messages_ok\<close> is
  \<^verbatim>\<open>messages && Array.isArray(messages)\<close>, and the consent property is absent, a boolean,
  or some other value.
\<close>

datatype consent = Absent | Flag bool | OtherValue

record chat_body =
  messages_ok :: bool
  consent_prop :: consent

record chat_request =
  req_method :: string
  req_body :: "chat_body option"

text \<open>\<^verbatim>\<open>consentGiven = true\<close> in the destructuring: the default applies to an absent property only.\<close>

fun consentDefault :: "consent \<Rightarrow> consent" where
  "consentDefault Absent = Flag True"
| "consentDefault c = c"

text \<open>
  What the handler cannot compute by itself: the configured key, the outcome of the call
  to the language model, what the regular expression and \<^verbatim>\<open>JSON.parse\<close> make of the
  answer text, whether the preparation of the insert throws (the dynamic import of the
  storage module, or the reading of the client address), and the generated session
  identifier and address hash.
\<close>

record ai_data =
  ai_text :: "string option"
  ai_payload :: string

datatype upstream = FetchThrows | HttpError nat | BodyUnreadable | Answer ai_data

text \<open>
  A value of the parsed result where the handler reads a score, the level or the title:
  \<open>None\<close> when it is missing or falsy, which \<^verbatim>\<open>||\<close> replaces, and otherwise what the
  \<^verbatim>\<open>INSERT\<close> makes of it.
\<close>

record pillar_scores =
  js_numeracy :: "cell param option"
  js_reading :: "cell param option"
  js_computer :: "cell param option"
  js_logic :: "cell param option"
  js_communication :: "cell param option"
  js_mindset :: "cell param option"

record assessment_json =
  assessment_complete :: bool
  pillars :: "pillar_scores option"
  readiness_level_json :: "cell param option"
  readiness_title_json :: "string param option"

datatype extraction = NoMatch | ParseThrows | Parsed assessment_json

record chat_env =
  api_key :: "string option"
  upstream_result :: upstream
  extract_results :: "string \<Rightarrow> extraction"
  prepare_fails :: bool
  new_session_id :: string
  client_ip_hash :: "string option"

datatype resp_body = NoBody | ErrorJson string | AiJson ai_data | CsvText string

record response =
  status :: nat
  body :: resp_body

text \<open>
  \<^verbatim>\<open>x || 0\<close> on a score that may be missing, \<^verbatim>\<open>x?.score\<close> on a pillar that may be
  missing, and \<^verbatim>\<open>x || ''\<close> on the title.
\<close>

fun orZero :: "cell param option \<Rightarrow> cell param" where
  "orZero None = Binds (IntCell 0)"
| "orZero (Some v) = v"

definition scoreOf ::
  "pillar_scores option \<Rightarrow> (pillar_scores \<Rightarrow> cell param option) \<Rightarrow> cell param" where
  "scoreOf ps sel = orZero (case ps of None \<Rightarrow> None | Some p \<Rightarrow> sel p)"

fun titleOrEmpty :: "string param option \<Rightarrow> string option param" where
  "titleOrEmpty None = Binds (Some '''')"
| "titleOrEmpty (Some Unbindable) = Unbindable"
| "titleOrEmpty (Some (Binds s)) = Binds (Some s)"

definition assessmentData :: "chat_env \<Rightarrow> assessment_json \<Rightarrow> assessment" where
  "assessmentData env res =
     \<lparr>sessionId = Binds (Some (new_session_id env)),
      numeracyScore = scoreOf (pillars res) js_numeracy,
      readingScore = scoreOf (pillars res) js_reading,
      computerScore = scoreOf (pillars res) js_computer,
      logicScore = scoreOf (pillars res) js_logic,
      communicationScore = scoreOf (pillars res) js_communication,
      mindsetScore = scoreOf (pillars res) js_mindset,
      readinessLevel = orZero (readiness_level_json res),
      readinessTitle = titleOrEmpty (readiness_title_json res),
      ipHash = Binds (client_ip_hash env),
      consentGiven = True\<rparr>"

text \<open>
  The extraction of the result: \<^verbatim>\<open>assessmentResults\<close> stays \<^verbatim>\<open>null\<close> when the regular
  expression does not match and when \<^verbatim>\<open>JSON.parse\<close> throws (the \<^verbatim>\<open>catch\<close> only logs).
\<close>

definition assessmentResults :: "chat_env \<Rightarrow> ai_data \<Rightarrow> assessment_json option" where
  "assessmentResults env d =
     (case extract_results env (orEmpty (ai_text d)) of
        Parsed res \<Rightarrow> Some res
      | _ \<Rightarrow> None)"

text \<open>
  The save block.  It returns the calls made to \<^verbatim>\<open>insertAssessment\<close> and the new
  database state; whatever is thrown inside is caught and logged.
\<close>

definition saveBlock ::
  "chat_env \<Rightarrow> consent \<Rightarrow> assessment_json option \<Rightarrow> dbstate \<Rightarrow> assessment list \<times> dbstate" where
  "saveBlock env consentGiven' results st =
     (case results of
        None \<Rightarrow> ([], st)
      | Some res \<Rightarrow>
          if assessment_complete res \<and> consentGiven' = Flag True then
            (if prepare_fails env then ([], st)
             else let a = assessmentData env res
                  in ([a], snd (insertAssessment a st)))
          else ([], st))"

text \<open>
  The handler: the response, the calls made to \<^verbatim>\<open>insertAssessment\<close>, and the database
  state afterwards.  A missing body makes the destructuring throw, which the outer
  \<^verbatim>\<open>catch\<close> turns into status 500, as it does a failing \<^verbatim>\<open>fetch\<close> or an unreadable
  answer.
\<close>

definition chatHandler ::
  "chat_env \<Rightarrow> chat_request \<Rightarrow> dbstate \<Rightarrow> response \<times> assessment list \<times> dbstate" where
  "chatHandler env req st =
     (if req_method req = ''OPTIONS'' then (\<lparr>status = 200, body = NoBody\<rparr>, [], st)
      else if req_method req \<noteq> ''POST'' then
        (\<lparr>status = 405, body = ErrorJson ''Method not allowed''\<rparr>, [], st)
      else case req_body req of
        None \<Rightarrow> (\<lparr>status = 500, body = ErrorJson ''Internal server error''\<rparr>, [], st)
      | Some b \<Rightarrow>
          let consentGiven' = consentDefault (consent_prop b) in
          if \<not> messages_ok b then
            (\<lparr>status = 400, body = ErrorJson ''Invalid request: messages array required''\<rparr>,
             [], st)
          else if api_key env = None \<or> api_key env = Some '''' then
            (\<lparr>status = 500,
              body = ErrorJson ''Server configuration error: API key not set''\<rparr>, [], st)
          else case upstream_result env of
            FetchThrows \<Rightarrow>
              (\<lparr>status = 500, body = ErrorJson ''Internal server error''\<rparr>, [], st)
          | HttpError code \<Rightarrow> (\<lparr>status = code, body = ErrorJson ''AI service error''\<rparr>, [], st)
          | BodyUnreadable \<Rightarrow>
              (\<lparr>status = 500, body = ErrorJson ''Internal server error''\<rparr>, [], st)
          | Answer d \<Rightarrow>
              let (calls, st') = saveBlock env consentGiven' (assessmentResults env d) st
              in (\<lparr>status = 200, body = AiJson d\<rparr>, calls, st'))"

section \<open>CSV export endpoint (api/export-csv.js)\<close>


text \<open>
  A module that has not opened its database yet, with everything in working order, and
  one whose database cannot be loaded, to run the helpers on.
\<close>

definition workingDb :: dbstate where
  "workingDb =
     \<lparr>db_open = False, has_table = False, db_table = [], db_disk = [],
      disk_writable = True, load_fails = False, create_fails = False,
      engine_fails = False, clock = ''2026-01-03 09:00:00''\<rparr>"

definition unopenableDb :: dbstate where
  "unopenableDb = workingDb\<lparr>load_fails := True\<rparr>"


text \<open>A finished quiz: the model answers with complete results.\<close>

definition finishedResults :: assessment_json where
  "finishedResults =
     \<lparr>assessment_complete = True,
      pillars = Some \<lparr>js_numeracy = Some (Binds (IntCell 8)),
                      js_reading = Some (Binds (IntCell 3)),
                      js_computer = Some (Binds (IntCell 7)),
                      js_logic = Some (Binds (IntCell 6)),
                      js_communication = Some (Binds (IntCell 4)),
                      js_mindset = Some (Binds (IntCell 5))\<rparr>,
      readiness_level_json = Some (Binds (IntCell 2)),
      readiness_title_json = Some (Binds ''Ready with Quick Prep'')\<rparr>"

definition finishedEnv :: chat_env where
  "finishedEnv =
     \<lparr>api_key = Some ''key'',
      upstream_result = Answer \<lparr>ai_text = Some ''results'', ai_payload = ''payload''\<rparr>,
      extract_results = (\<lambda>_. Parsed finishedResults),
      prepare_fails = False,
      new_session_id = ''session_1767430800000_k3x9q'',
      client_ip_hash = None\<rparr>"

definition postRequest :: "consent \<Rightarrow> chat_request" where
  "postRequest c =
     \<lparr>req_method = ''POST'', req_body = Some \<lparr>messages_ok = True, consent_prop = c\<rparr>\<rparr>"

section \<open>Properties of the generator\<close>

lemmas PILLAR_CONFIG_defs =
  cfg_numeracy_def cfg_reading_def cfg_computer_def cfg_logic_def
  cfg_communication_def cfg_mindset_def

lemmas WEAKNESS_TARGETS_defs =
  target_reading_def target_communication_def target_logic_def
  target_numeracy_def target_computer_def target_mindset_def

lemma randomIntOf_bounds:
  assumes "0 \<le> r" "r < 1" "mn \<le> mx"
  shows "mn \<le> randomIntOf mn mx r \<and> randomIntOf mn mx r \<le> mx"
proof -
  let ?n = "mx - mn + 1"
  have n: "0 < (of_int ?n :: real)" using assms(3) by simp
  have "0 \<le> r * of_int ?n" using assms(1) n by simp
  then have lo: "0 \<le> \<lfloor>r * of_int ?n\<rfloor>" by simp
  have "r * of_int ?n < of_int ?n" using assms(2) n by simp
  then have "\<lfloor>r * of_int ?n\<rfloor> < ?n" by (rule floor_less_iff [THEN iffD2])
  with lo show ?thesis unfolding randomIntOf_def by linarith
qed

lemma tierAdjust_1:
  "tierAdjust 1 sc rnd k =
     (\<lparr>numeracy = max (numeracy sc) (randomIntOf 7 10 (rnd k)),
       reading = max (reading sc) (randomIntOf 4 5 (rnd (k + 1))),
       computer = max (computer sc) (randomIntOf 7 10 (rnd (k + 2))),
       logic = max (logic sc) (randomIntOf 6 8 (rnd (k + 3))),
       communication = max (communication sc) (randomIntOf 4 5 (rnd (k + 4))),
       mindset = max (mindset sc) (randomIntOf 5 7 (rnd (k + 5)))\<rparr>, k + 6)"
  by (simp add: tierAdjust_def randomInt_def eval_nat_numeral)

lemma tierAdjust_2:
  "tierAdjust 2 sc rnd k =
     (sc\<lparr>numeracy := max (numeracy sc) (randomIntOf 5 8 (rnd k)),
         computer := max (computer sc) (randomIntOf 5 8 (rnd (k + 1))),
         mindset := max (mindset sc) (randomIntOf 4 6 (rnd (k + 2)))\<rparr>, k + 3)"
  by (simp add: tierAdjust_def randomInt_def eval_nat_numeral)

lemma tierAdjust_4:
  "tierAdjust 4 sc rnd k =
     (sc\<lparr>numeracy := min (numeracy sc) (randomIntOf 3 6 (rnd k)),
         reading := min (reading sc) (randomIntOf 1 3 (rnd (k + 1))),
         logic := min (logic sc) (randomIntOf 2 4 (rnd (k + 2))),
         communication := min (communication sc) (randomIntOf 1 3 (rnd (k + 3)))\<rparr>, k + 4)"
  by (simp add: tierAdjust_def randomInt_def eval_nat_numeral)

lemma tierAdjust_5:
  "tierAdjust 5 sc rnd k =
     (\<lparr>numeracy = min (numeracy sc) (randomIntOf 1 4 (rnd k)),
       reading = min (reading sc) (randomIntOf 0 2 (rnd (k + 1))),
       computer = min (computer sc) (randomIntOf 1 4 (rnd (k + 2))),
       logic = min (logic sc) (randomIntOf 1 3 (rnd (k + 3))),
       communication = min (communication sc) (randomIntOf 0 2 (rnd (k + 4))),
       mindset = min (mindset sc) (randomIntOf 1 3 (rnd (k + 5)))\<rparr>, k + 6)"
  by (simp add: tierAdjust_def randomInt_def eval_nat_numeral)

lemma tierAdjust_other:
  "lvl \<noteq> 1 \<Longrightarrow> lvl \<noteq> 2 \<Longrightarrow> lvl \<noteq> 4 \<Longrightarrow> lvl \<noteq> 5 \<Longrightarrow> tierAdjust lvl sc rnd k = (sc, k)"
  by (simp add: tierAdjust_def)

lemma baseDraw_eq:
  "baseDraw rnd k =
     (\<lparr>numeracy = randomIntOf 2 10 (rnd k), reading = randomIntOf 1 5 (rnd (k + 1)),
       computer = randomIntOf 2 10 (rnd (k + 2)), logic = randomIntOf 2 8 (rnd (k + 3)),
       communication = randomIntOf 1 5 (rnd (k + 4)),
       mindset = randomIntOf 2 7 (rnd (k + 5))\<rparr>, k + 6)"
  by (simp add: baseDraw_def randomInt_def PILLAR_CONFIG_defs eval_nat_numeral)

lemma in_range_max: "in_range cfg a \<Longrightarrow> in_range cfg d \<Longrightarrow> in_range cfg (max a d)"
  by (simp add: in_range_def max_def)

lemma in_range_min: "in_range cfg a \<Longrightarrow> in_range cfg d \<Longrightarrow> in_range cfg (min a d)"
  by (simp add: in_range_def min_def)

lemma in_range_clamp:
  "in_range cfg a \<Longrightarrow> in_range cfg t \<Longrightarrow> in_range cfg (if b then min a t else a)"
  by (simp add: in_range_min)

lemma draw_in_range:
  assumes "unit_draws rnd" "0 \<le> mn" "mn \<le> mx" "mx \<le> max_score cfg"
  shows "in_range cfg (randomIntOf mn mx (rnd i))"
proof -
  have "0 \<le> rnd i" "rnd i < 1" using assms(1) by (simp_all add: unit_draws_def)
  from randomIntOf_bounds [OF this assms(3)] assms(2,4) show ?thesis
    by (simp add: in_range_def)
qed

lemma baseDraw_in_range:
  assumes "unit_draws rnd"
  shows "scores_in_range (fst (baseDraw rnd k))"
  by (simp add: baseDraw_eq scores_in_range_def draw_in_range [OF assms] PILLAR_CONFIG_defs)

lemma tierAdjust_in_range:
  assumes u: "unit_draws rnd" and s: "scores_in_range sc"
  shows "scores_in_range (fst (tierAdjust lvl sc rnd k))"
proof -
  note r = in_range_max in_range_min draw_in_range [OF u] PILLAR_CONFIG_defs
  consider "lvl = 1" | "lvl = 2" | "lvl = 4" | "lvl = 5"
    | "lvl \<noteq> 1" "lvl \<noteq> 2" "lvl \<noteq> 4" "lvl \<noteq> 5" by blast
  then show ?thesis
  proof cases
    case 1
    with s show ?thesis by (simp add: tierAdjust_1 scores_in_range_def r)
  next
    case 2
    with s show ?thesis by (simp add: tierAdjust_2 scores_in_range_def r)
  next
    case 3
    with s show ?thesis by (simp add: tierAdjust_4 scores_in_range_def r)
  next
    case 4
    with s show ?thesis by (simp add: tierAdjust_5 scores_in_range_def r)
  next
    case 5
    with s show ?thesis by (simp add: tierAdjust_other)
  qed
qed

lemma upd_if:
  "(if b then s\<lparr>reading := x\<rparr> else s) = s\<lparr>reading := (if b then x else reading s)\<rparr>"
  "(if b then s\<lparr>communication := x\<rparr> else s) = s\<lparr>communication := (if b then x else communication s)\<rparr>"
  "(if b then s\<lparr>logic := x\<rparr> else s) = s\<lparr>logic := (if b then x else logic s)\<rparr>"
  "(if b then s\<lparr>numeracy := x\<rparr> else s) = s\<lparr>numeracy := (if b then x else numeracy s)\<rparr>"
  "(if b then s\<lparr>computer := x\<rparr> else s) = s\<lparr>computer := (if b then x else computer s)\<rparr>"
  "(if b then s\<lparr>mindset := x\<rparr> else s) = s\<lparr>mindset := (if b then x else mindset s)\<rparr>"
  by simp_all

lemma enforcePatterns_eq:
  "enforcePatterns sc rnd k =
     (\<lparr>numeracy = (if rnd (k + 3) < target_numeracy
                    then min (numeracy sc) (weakThreshold cfg_numeracy) else numeracy sc),
       reading = (if rnd k < target_reading
                  then min (reading sc) (weakThreshold cfg_reading) else reading sc),
       computer = (if rnd (k + 4) < target_computer
                   then min (computer sc) (weakThreshold cfg_computer) else computer sc),
       logic = (if rnd (k + 2) < target_logic
                then min (logic sc) (weakThreshold cfg_logic) else logic sc),
       communication = (if rnd (k + 1) < target_communication
                        then min (communication sc) (weakThreshold cfg_communication)
                        else communication sc),
       mindset = (if rnd (k + 5) < target_mindset
                  then min (mindset sc) (weakThreshold cfg_mindset) else mindset sc)\<rparr>, k + 6)"
  unfolding enforcePatterns_def Let_def upd_if
  by (simp split del: if_split cong: if_cong)

lemma enforcePatterns_le: "scores_le (fst (enforcePatterns sc rnd k)) sc"
  by (simp add: enforcePatterns_eq scores_le_def min_def)

lemma enforcePatterns_in_range:
  "scores_in_range sc \<Longrightarrow> scores_in_range (fst (enforcePatterns sc rnd k))"
  by (simp add: enforcePatterns_eq scores_in_range_def in_range_clamp PILLAR_CONFIG_defs
      in_range_def [of _ "numeral n" for n] split del: if_split)

lemma generateRecord_eq:
  "generateRecord rnd k =
     (let rd = selectReadinessLevelOf (rnd k);
          adj = generateBaseScores (fst rd) rnd (k + 1);
          enf = enforcePatterns (fst adj) rnd (snd adj)
      in (\<lparr>g_scores = fst enf, g_level = fst rd, g_title = snd rd\<rparr>, snd enf))"
  by (simp add: generateRecord_def selectReadinessLevel_def Let_def split_beta)

lemma selectReadinessLevelOf_cases:
  "selectReadinessLevelOf r =
     (if r \<le> 15 / 100 then (1, ''Ready to Start'')
      else if r \<le> 55 / 100 then (2, ''Ready with Quick Prep'')
      else if r \<le> 80 / 100 then (3, ''Need Foundation Work'')
      else if r \<le> 95 / 100 then (4, ''Need Comprehensive Prep'')
      else (5, ''Not Yet Ready''))"
  by (simp add: selectReadinessLevelOf_def selectFrom_def READINESS_DISTRIBUTION_def)

text \<open>
  Claim C1.  Whatever the draws, as long as each lies in \<open>[0,1)\<close>, every pillar score of
  a generated record (base draw, then tier adjustment, then weakness enforcement) lies
  between 0 and that pillar's maximum: numeracy 10, reading 5, computer 10, logic 8,
  communication 5, mindset 7.
\<close>

theorem generateRecord_scores_in_range:
  assumes "unit_draws rnd"
  shows "scores_in_range (g_scores (fst (generateRecord rnd k)))"
proof -
  define lvl where "lvl = fst (selectReadinessLevelOf (rnd k))"
  have "scores_in_range (fst (baseDraw rnd (k + 1)))"
    using assms by (rule baseDraw_in_range)
  then have "scores_in_range (fst (generateBaseScores lvl rnd (k + 1)))"
    using assms by (simp add: generateBaseScores_def split_beta tierAdjust_in_range)
  then show ?thesis
    by (simp add: generateRecord_eq Let_def lvl_def enforcePatterns_in_range)
qed

theorem generateRecord_scores_in_range_witness:
  "unit_draws (\<lambda>_. 1 / 2) \<and>
   g_scores (fst (generateRecord (\<lambda>_. 1 / 2) 0)) =
     \<lparr>numeracy = 7, reading = 2, computer = 7, logic = 5, communication = 2, mindset = 5\<rparr> \<and>
   scores_in_range (g_scores (fst (generateRecord (\<lambda>_. 1 / 2) 0)))"
proof -
  have h: "unit_draws (\<lambda>_. 1 / 2)" by (simp add: unit_draws_def)
  have "selectReadinessLevelOf (1 / 2) = (2, ''Ready with Quick Prep'')"
    by (simp add: selectReadinessLevelOf_cases)
  then have "g_scores (fst (generateRecord (\<lambda>_. 1 / 2) 0)) =
     \<lparr>numeracy = 7, reading = 2, computer = 7, logic = 5, communication = 2, mindset = 5\<rparr>"
    by (simp add: generateRecord_eq generateBaseScores_def baseDraw_eq tierAdjust_2
        enforcePatterns_eq randomIntOf_def WEAKNESS_TARGETS_defs PILLAR_CONFIG_defs)
  with h generateRecord_scores_in_range [OF h, of 0] show ?thesis by simp
qed

lemma walkTiers_Some:
  "walkTiers r c ts = Some t \<Longrightarrow>
     \<exists>i<length ts. t = ts ! i \<and> r \<le> c + cumulativeOf ts i \<and>
                    (\<forall>j<i. c + cumulativeOf ts j < r)"
proof (induction ts arbitrary: c)
  case Nil
  then show ?case by simp
next
  case (Cons x xs)
  show ?case
  proof (cases "r \<le> c + probability x")
    case True
    with Cons.prems have "t = x" by simp
    with True show ?thesis by (intro exI [of _ 0]) (simp add: cumulativeOf_def)
  next
    case False
    with Cons.prems have "walkTiers r (c + probability x) xs = Some t" by simp
    from Cons.IH [OF this] obtain i where i: "i < length xs" "t = xs ! i"
      "r \<le> c + probability x + cumulativeOf xs i"
      "\<forall>j<i. c + probability x + cumulativeOf xs j < r" by blast
    have "\<forall>j<Suc i. c + cumulativeOf (x # xs) j < r"
    proof (intro allI impI)
      fix j assume "j < Suc i"
      then show "c + cumulativeOf (x # xs) j < r"
        using False i(4) by (cases j) (simp_all add: cumulativeOf_def add.assoc)
    qed
    with i(1,2,3) show ?thesis
      by (intro exI [of _ "Suc i"]) (simp add: cumulativeOf_def add.assoc)
  qed
qed

lemma walkTiers_None:
  "walkTiers r c ts = None \<Longrightarrow> \<forall>j<length ts. c + cumulativeOf ts j < r"
proof (induction ts arbitrary: c)
  case Nil
  then show ?case by simp
next
  case (Cons x xs)
  then have f: "\<not> r \<le> c + probability x" and "walkTiers r (c + probability x) xs = None"
    by (simp_all add: Let_def split: if_splits)
  from Cons.IH [OF this(2)] have ih: "\<forall>j<length xs. c + probability x + cumulativeOf xs j < r" .
  show ?case
  proof (intro allI impI)
    fix j assume "j < length (x # xs)"
    then show "c + cumulativeOf (x # xs) j < r"
      using f ih by (cases j) (simp_all add: cumulativeOf_def add.assoc)
  qed
qed

lemma sameTiers_nth:
  assumes "sameTiers tiers" "i < 5"
  shows "length tiers = 5" "level (tiers ! i) = int i + 1"
    "title (tiers ! i) = title (READINESS_DISTRIBUTION ! i)"
proof -
  have l: "length (map level tiers) = 5" "length READINESS_DISTRIBUTION = 5"
    using assms(1) by (simp_all add: sameTiers_def READINESS_DISTRIBUTION_def)
  then show len: "length tiers = 5" by simp
  have "level (tiers ! i) = map level tiers ! i" using len assms(2) by simp
  also have "\<dots> = map level READINESS_DISTRIBUTION ! i" using assms(1) by (simp add: sameTiers_def)
  also have "\<dots> = int i + 1"
    using assms(2) by (auto simp: READINESS_DISTRIBUTION_def less_Suc_eq eval_nat_numeral)
  finally show "level (tiers ! i) = int i + 1" .
  have "title (tiers ! i) = map title tiers ! i" using len assms(2) by simp
  also have "\<dots> = map title READINESS_DISTRIBUTION ! i" using assms(1) by (simp add: sameTiers_def)
  also have "\<dots> = title (READINESS_DISTRIBUTION ! i)" using l(2) assms(2) by simp
  finally show "title (tiers ! i) = title (READINESS_DISTRIBUTION ! i)" .
qed

lemma selectFrom_sameTiers:
  assumes "sameTiers tiers"
  shows "\<exists>i<5. selectFrom tiers r = (int i + 1, title (READINESS_DISTRIBUTION ! i)) \<and>
       (if \<exists>j<5. r \<le> cumulativeOf tiers j
        then r \<le> cumulativeOf tiers i \<and> (\<forall>j<i. cumulativeOf tiers j < r)
        else i = 4)"
proof (cases "walkTiers r 0 tiers")
  case None
  from walkTiers_None [OF None] have "\<forall>j<5. cumulativeOf tiers j < r"
    using sameTiers_nth(1) [OF assms] by simp
  then have no: "\<not> (\<exists>j<5. r \<le> cumulativeOf tiers j)" by (simp add: not_le)
  have "selectFrom tiers r = (level (tiers ! 4), title (tiers ! 4))"
    using None sameTiers_nth(1) [OF assms, of 0] by (simp add: selectFrom_def Let_def)
  then have "selectFrom tiers r = (int 4 + 1, title (READINESS_DISTRIBUTION ! 4))"
    using sameTiers_nth(2,3) [OF assms, of 4] by simp
  with no show ?thesis by (intro exI [of _ 4]) simp
next
  case (Some t)
  from walkTiers_Some [OF Some] obtain i where i: "i < length tiers" "t = tiers ! i"
    "r \<le> cumulativeOf tiers i" "\<forall>j<i. cumulativeOf tiers j < r" by auto
  have i5: "i < 5" using i(1) sameTiers_nth(1) [OF assms, of 0] by simp
  have "selectFrom tiers r = (level (tiers ! i), title (tiers ! i))"
    using Some i(2) by (simp add: selectFrom_def)
  then have "selectFrom tiers r = (int i + 1, title (READINESS_DISTRIBUTION ! i))"
    using sameTiers_nth(2,3) [OF assms i5] by simp
  moreover have "\<exists>j<5. r \<le> cumulativeOf tiers j" using i5 i(3) by blast
  ultimately show ?thesis using i5 i(3,4) by (intro exI [of _ i]) simp
qed

lemma cumulative_configured:
  "map (cumulativeOf READINESS_DISTRIBUTION) [0, 1, 2, 3, 4] =
     [15 / 100, 55 / 100, 80 / 100, 95 / 100, 1]"
  by (simp add: cumulativeOf_def READINESS_DISTRIBUTION_def eval_nat_numeral)

text \<open>
  Claim C3.  Tier selection walks the distribution, whose running sums are 0.15, 0.55,
  0.80, 0.95 and 1, and is total: for the configured tiers with any probabilities it
  returns tier \<open>i + 1\<close> with that tier's title, where \<open>i\<close> is the first index whose
  running sum is at least the draw, and the last tier, level 5, when the draw is above
  every running sum.
\<close>

theorem selectReadinessLevel_total:
  "selectReadinessLevel rnd k = (selectFrom READINESS_DISTRIBUTION (rnd k), k + 1) \<and>
   sameTiers READINESS_DISTRIBUTION \<and>
   map (cumulativeOf READINESS_DISTRIBUTION) [0, 1, 2, 3, 4] =
     [15 / 100, 55 / 100, 80 / 100, 95 / 100, 1] \<and>
   (sameTiers tiers \<longrightarrow>
      (\<exists>i<5. selectFrom tiers r = (int i + 1, title (READINESS_DISTRIBUTION ! i)) \<and>
         (if \<exists>j<5. r \<le> cumulativeOf tiers j
          then r \<le> cumulativeOf tiers i \<and> (\<forall>j<i. cumulativeOf tiers j < r)
          else i = 4)))"
proof -
  have "selectReadinessLevel rnd k = (selectFrom READINESS_DISTRIBUTION (rnd k), k + 1)"
    by (simp add: selectReadinessLevel_def selectReadinessLevelOf_def)
  moreover have "sameTiers READINESS_DISTRIBUTION" by (simp add: sameTiers_def)
  ultimately show ?thesis using cumulative_configured selectFrom_sameTiers [of tiers r] by blast
qed

theorem selectReadinessLevel_total_witness:
  "sameTiers driftedDistribution \<and>
   selectFrom READINESS_DISTRIBUTION (1 / 2) = (2, ''Ready with Quick Prep'') \<and>
   selectFrom driftedDistribution (999 / 1000) = (5, ''Not Yet Ready'') \<and>
   cumulativeOf driftedDistribution 4 < 999 / 1000"
proof -
  have s: "sameTiers driftedDistribution"
    by (simp add: sameTiers_def driftedDistribution_def READINESS_DISTRIBUTION_def)
  have c: "cumulativeOf driftedDistribution 0 = 149 / 1000"
    "cumulativeOf driftedDistribution 1 = 548 / 1000"
    "cumulativeOf driftedDistribution 2 = 797 / 1000"
    "cumulativeOf driftedDistribution 3 = 946 / 1000"
    "cumulativeOf driftedDistribution 4 = 995 / 1000"
    by (simp_all add: cumulativeOf_def driftedDistribution_def READINESS_DISTRIBUTION_def
        eval_nat_numeral)
  have "cumulativeOf driftedDistribution j < 999 / 1000" if "j < 5" for j
  proof -
    from that have "j = 0 \<or> j = 1 \<or> j = 2 \<or> j = 3 \<or> j = 4" by presburger
    then show ?thesis using c by (elim disjE) simp_all
  qed
  then have no: "\<not> (\<exists>j<5. 999 / 1000 \<le> cumulativeOf driftedDistribution j)"
    by (auto simp: not_le)
  from selectReadinessLevel_total [of "\<lambda>_. 0" 0 driftedDistribution "999 / 1000"] s no
  have "selectFrom driftedDistribution (999 / 1000) = (int 4 + 1, title (READINESS_DISTRIBUTION ! 4))"
    by auto
  then have d: "selectFrom driftedDistribution (999 / 1000) = (5, ''Not Yet Ready'')"
    by (simp add: READINESS_DISTRIBUTION_def)
  have "selectFrom READINESS_DISTRIBUTION (1 / 2) = (2, ''Ready with Quick Prep'')"
    using selectReadinessLevelOf_cases [of "1 / 2"] by (simp add: selectReadinessLevelOf_def)
  with s d c(5) show ?thesis by simp
qed

text \<open>
  Claim C4.  Weakness enforcement reads one draw per pillar and, pillar by pillar, replaces
  the score by its minimum with the weak threshold (reading 2, communication 2, logic 3,
  numeracy 4, computer 4, mindset 3) exactly when that draw is below the pillar's target,
  and leaves it unchanged otherwise; no score grows.  In a generated record it is applied
  to the tier-adjusted scores, whatever the tier selected.
\<close>

theorem enforcePatterns_clamps:
  "enforcePatterns sc rnd k =
     (\<lparr>numeracy = (if rnd (k + 3) < 30 / 100 then min (numeracy sc) 4 else numeracy sc),
       reading = (if rnd k < 68 / 100 then min (reading sc) 2 else reading sc),
       computer = (if rnd (k + 4) < 25 / 100 then min (computer sc) 4 else computer sc),
       logic = (if rnd (k + 2) < 45 / 100 then min (logic sc) 3 else logic sc),
       communication =
         (if rnd (k + 1) < 62 / 100 then min (communication sc) 2 else communication sc),
       mindset = (if rnd (k + 5) < 20 / 100 then min (mindset sc) 3 else mindset sc)\<rparr>,
      k + 6) \<and>
   scores_le (fst (enforcePatterns sc rnd k)) sc \<and>
   (let (readinessData, k1) = selectReadinessLevel rnd k;
        (adjusted, k2) = generateBaseScores (fst readinessData) rnd k1
    in g_scores (fst (generateRecord rnd k)) = fst (enforcePatterns adjusted rnd k2))"
proof -
  have "enforcePatterns sc rnd k =
     (\<lparr>numeracy = (if rnd (k + 3) < 30 / 100 then min (numeracy sc) 4 else numeracy sc),
       reading = (if rnd k < 68 / 100 then min (reading sc) 2 else reading sc),
       computer = (if rnd (k + 4) < 25 / 100 then min (computer sc) 4 else computer sc),
       logic = (if rnd (k + 2) < 45 / 100 then min (logic sc) 3 else logic sc),
       communication =
         (if rnd (k + 1) < 62 / 100 then min (communication sc) 2 else communication sc),
       mindset = (if rnd (k + 5) < 20 / 100 then min (mindset sc) 3 else mindset sc)\<rparr>,
      k + 6)"
    unfolding enforcePatterns_eq WEAKNESS_TARGETS_defs PILLAR_CONFIG_defs
    by (simp split del: if_split cong: if_cong)
  moreover have "let (readinessData, k1) = selectReadinessLevel rnd k;
        (adjusted, k2) = generateBaseScores (fst readinessData) rnd k1
    in g_scores (fst (generateRecord rnd k)) = fst (enforcePatterns adjusted rnd k2)"
    by (simp add: generateRecord_def Let_def split_beta)
  ultimately show ?thesis using enforcePatterns_le [of sc rnd k] by blast
qed

theorem enforcePatterns_clamps_witness:
  "fst (enforcePatterns
      \<lparr>numeracy = 9, reading = 5, computer = 3, logic = 8, communication = 1, mindset = 7\<rparr>
      (\<lambda>i. if i = 2 then 9 / 10 else 1 / 10) 0) =
     \<lparr>numeracy = 4, reading = 2, computer = 3, logic = 8, communication = 1, mindset = 3\<rparr>"
  using enforcePatterns_clamps
    [of "\<lparr>numeracy = 9, reading = 5, computer = 3, logic = 8, communication = 1, mindset = 7\<rparr>"
      "\<lambda>i. if i = 2 then 9 / 10 else 1 / 10" 0]
  by simp

text \<open>
  Claim C5.  Tier adjustment is a one-sided clamp against a fresh draw from the tier's
  sub-range: level 1 takes the maximum on all six pillars, level 2 on numeracy, computer
  and mindset only, level 3 (and any level outside 1, 2, 4, 5) changes nothing, level 4
  takes the minimum on numeracy, reading, logic and communication only, level 5 on all
  six.  So levels 1 and 2 never lower a score and levels 4 and 5 never raise one.
\<close>

theorem tierAdjust_one_sided:
  "tierAdjust 1 sc rnd k =
     (\<lparr>numeracy = max (numeracy sc) (randomIntOf 7 10 (rnd k)),
       reading = max (reading sc) (randomIntOf 4 5 (rnd (k + 1))),
       computer = max (computer sc) (randomIntOf 7 10 (rnd (k + 2))),
       logic = max (logic sc) (randomIntOf 6 8 (rnd (k + 3))),
       communication = max (communication sc) (randomIntOf 4 5 (rnd (k + 4))),
       mindset = max (mindset sc) (randomIntOf 5 7 (rnd (k + 5)))\<rparr>, k + 6) \<and>
   tierAdjust 2 sc rnd k =
     (sc\<lparr>numeracy := max (numeracy sc) (randomIntOf 5 8 (rnd k)),
         computer := max (computer sc) (randomIntOf 5 8 (rnd (k + 1))),
         mindset := max (mindset sc) (randomIntOf 4 6 (rnd (k + 2)))\<rparr>, k + 3) \<and>
   tierAdjust 3 sc rnd k = (sc, k) \<and>
   tierAdjust 4 sc rnd k =
     (sc\<lparr>numeracy := min (numeracy sc) (randomIntOf 3 6 (rnd k)),
         reading := min (reading sc) (randomIntOf 1 3 (rnd (k + 1))),
         logic := min (logic sc) (randomIntOf 2 4 (rnd (k + 2))),
         communication := min (communication sc) (randomIntOf 1 3 (rnd (k + 3)))\<rparr>, k + 4) \<and>
   tierAdjust 5 sc rnd k =
     (\<lparr>numeracy = min (numeracy sc) (randomIntOf 1 4 (rnd k)),
       reading = min (reading sc) (randomIntOf 0 2 (rnd (k + 1))),
       computer = min (computer sc) (randomIntOf 1 4 (rnd (k + 2))),
       logic = min (logic sc) (randomIntOf 1 3 (rnd (k + 3))),
       communication = min (communication sc) (randomIntOf 0 2 (rnd (k + 4))),
       mindset = min (mindset sc) (randomIntOf 1 3 (rnd (k + 5)))\<rparr>, k + 6) \<and>
   (lvl \<notin> {1, 2, 4, 5} \<longrightarrow> tierAdjust lvl sc rnd k = (sc, k)) \<and>
   (lvl \<in> {1, 2} \<longrightarrow> scores_le sc (fst (tierAdjust lvl sc rnd k))) \<and>
   (lvl \<in> {4, 5} \<longrightarrow> scores_le (fst (tierAdjust lvl sc rnd k)) sc) \<and>
   generateBaseScores lvl rnd k = tierAdjust lvl (fst (baseDraw rnd k)) rnd (k + 6)"
proof -
  have up: "lvl \<in> {1, 2} \<longrightarrow> scores_le sc (fst (tierAdjust lvl sc rnd k))"
    by (auto simp: tierAdjust_1 tierAdjust_2 scores_le_def)
  have down: "lvl \<in> {4, 5} \<longrightarrow> scores_le (fst (tierAdjust lvl sc rnd k)) sc"
    by (auto simp: tierAdjust_4 tierAdjust_5 scores_le_def)
  have other: "lvl \<notin> {1, 2, 4, 5} \<longrightarrow> tierAdjust lvl sc rnd k = (sc, k)"
    by (simp add: tierAdjust_other)
  have gen: "generateBaseScores lvl rnd k = tierAdjust lvl (fst (baseDraw rnd k)) rnd (k + 6)"
    by (simp add: generateBaseScores_def baseDraw_eq)
  have three: "tierAdjust 3 sc rnd k = (sc, k)"
    by (simp add: tierAdjust_other)
  from up down other gen three show ?thesis
    using tierAdjust_1 [of sc rnd k] tierAdjust_2 [of sc rnd k] tierAdjust_4 [of sc rnd k]
      tierAdjust_5 [of sc rnd k]
    by blast
qed

theorem tierAdjust_one_sided_witness:
  "(2::int) \<in> {1, 2} \<and> (7::int) \<notin> {1, 2, 4, 5} \<and>
   fst (tierAdjust 2
      \<lparr>numeracy = 3, reading = 1, computer = 9, logic = 2, communication = 1, mindset = 2\<rparr>
      (\<lambda>_. 1 / 2) 0) =
     \<lparr>numeracy = 7, reading = 1, computer = 9, logic = 2, communication = 1, mindset = 5\<rparr> \<and>
   scores_le
     \<lparr>numeracy = 3, reading = 1, computer = 9, logic = 2, communication = 1, mindset = 2\<rparr>
     (fst (tierAdjust 2
        \<lparr>numeracy = 3, reading = 1, computer = 9, logic = 2, communication = 1, mindset = 2\<rparr>
        (\<lambda>_. 1 / 2) 0)) \<and>
   tierAdjust 7
     \<lparr>numeracy = 3, reading = 1, computer = 9, logic = 2, communication = 1, mindset = 2\<rparr>
     (\<lambda>_. 1 / 2) 0 =
     (\<lparr>numeracy = 3, reading = 1, computer = 9, logic = 2, communication = 1, mindset = 2\<rparr>, 0)"
  using tierAdjust_one_sided
    [of "\<lparr>numeracy = 3, reading = 1, computer = 9, logic = 2, communication = 1, mindset = 2\<rparr>"
      "\<lambda>_. 1 / 2" 0 2]
    tierAdjust_one_sided
    [of "\<lparr>numeracy = 3, reading = 1, computer = 9, logic = 2, communication = 1, mindset = 2\<rparr>"
      "\<lambda>_. 1 / 2" 0 7]
  by (simp add: randomIntOf_def)

section \<open>Properties of the pattern report\<close>

lemma mset_js_insort: "mset (js_insort cmp x ys) = add_mset x (mset ys)"
  by (induction ys) simp_all

lemma mset_js_sort: "mset (js_sort cmp xs) = mset xs"
  by (induction xs) (simp_all add: js_sort_def mset_js_insort)

lemma js_insort_eq_insort_key:
  assumes "\<forall>y\<in>set ys. js_gt (cmp x y) (Fin 0) \<longleftrightarrow> k y < k x"
  shows "js_insort cmp x ys = insort_key k x ys"
  using assms by (induction ys) (auto simp: not_le)

lemma js_sort_eq_sort_key:
  fixes k :: "'a \<Rightarrow> 'k::linorder"
  assumes "\<forall>x\<in>set xs. \<forall>y\<in>set xs. js_gt (cmp x y) (Fin 0) \<longleftrightarrow> k y < k x"
  shows "js_sort cmp xs = sort_key k xs"
  using assms
proof (induction xs)
  case Nil
  then show ?case by (simp add: js_sort_def)
next
  case (Cons x xs)
  then have ih: "js_sort cmp xs = sort_key k xs" by simp
  have "\<forall>y\<in>set (sort_key k xs). js_gt (cmp x y) (Fin 0) \<longleftrightarrow> k y < k x"
    using Cons.prems by simp
  then have "js_insort cmp x (sort_key k xs) = insort_key k x (sort_key k xs)"
    by (rule js_insort_eq_insort_key)
  with ih show ?case by (simp add: js_sort_def sort_key_def)
qed

lemma insort_key_lex:
  fixes k :: "'a \<Rightarrow> 'k::linorder"
  assumes "sorted_wrt (\<lambda>a b. k a < k b \<or> (k a = k b \<and> d a < d b)) ys"
    and "\<forall>y\<in>set ys. (d x :: nat) < d y"
  shows "sorted_wrt (\<lambda>a b. k a < k b \<or> (k a = k b \<and> d a < d b)) (insort_key k x ys)"
  using assms
proof (induction ys)
  case Nil
  then show ?case by simp
next
  case (Cons y ys)
  show ?case
  proof (cases "k x \<le> k y")
    case True
    have "\<forall>z\<in>set ys. k x < k z \<or> (k x = k z \<and> d x < d z)"
    proof
      fix z assume z: "z \<in> set ys"
      with Cons.prems(1) have "k y \<le> k z" by auto
      with True have "k x \<le> k z" by simp
      moreover from z Cons.prems(2) have "d x < d z" by simp
      ultimately show "k x < k z \<or> (k x = k z \<and> d x < d z)" by auto
    qed
    moreover from True Cons.prems(2) have "k x < k y \<or> (k x = k y \<and> d x < d y)" by auto
    ultimately show ?thesis using True Cons.prems(1) by simp
  next
    case False
    then have "k y < k x" by simp
    moreover have "sorted_wrt (\<lambda>a b. k a < k b \<or> (k a = k b \<and> d a < d b)) (insort_key k x ys)"
      using Cons by simp
    ultimately show ?thesis using False Cons.prems(1) by (auto simp: set_insort_key)
  qed
qed

lemma sort_key_lex:
  fixes k :: "'a \<Rightarrow> 'k::linorder"
  assumes "sorted_wrt (\<lambda>a b. (d a :: nat) < d b) xs"
  shows "sorted_wrt (\<lambda>a b. k a < k b \<or> (k a = k b \<and> d a < d b)) (sort_key k xs)"
  using assms
proof (induction xs)
  case Nil
  then show ?case by simp
next
  case (Cons x xs)
  then have "sorted_wrt (\<lambda>a b. k a < k b \<or> (k a = k b \<and> d a < d b)) (sort_key k xs)"
    and "\<forall>y\<in>set (sort_key k xs). d x < d y" by simp_all
  then show ?case by (simp add: insort_key_lex)
qed

lemma length_pillarStats: "length (pillarStats asNumber rows) = 6"
  by (simp add: pillarStats_def PILLARS_def)

lemma length_rankStats: "length (rankStats asNumber rows) = 6"
proof -
  have "size (mset (rankStats asNumber rows)) = size (mset (pillarStats asNumber rows))"
    by (simp add: rankStats_def mset_js_sort)
  then show ?thesis by (simp add: length_pillarStats)
qed

lemma names_pillarStats:
  "map ps_name (pillarStats asNumber rows) =
     [''Reading'', ''Communication'', ''Logic'', ''Numeracy'', ''Computer'', ''Mindset'']"
  by (simp add: pillarStats_def pillarStat_def PILLARS_def Let_def)

lemma declIndex_pillarStats:
  "sorted_wrt (\<lambda>a b. declIndex a < declIndex b) (pillarStats asNumber rows)"
proof -
  have "sorted_wrt (\<lambda>a b. indexOf a (map p_name PILLARS) < indexOf b (map p_name PILLARS))
          (map ps_name (pillarStats asNumber rows))"
    by (simp add: pillarStats_def pillarStat_def PILLARS_def Let_def)
  then show ?thesis by (simp add: sorted_wrt_map declIndex_def)
qed

lemma weakPct_pillarStats:
  assumes "s \<in> set (pillarStats asNumber rows)"
  shows "weakPct s = (if rows = [] then NaN
                      else Fin (of_nat (weakCount s) / of_nat (length rows) * 100))"
proof -
  from assms obtain p where s: "s = pillarStat asNumber (length rows) rows p"
    by (auto simp: pillarStats_def sqlCountAll_def)
  show ?thesis
  proof (cases "rows = []")
    case True
    then show ?thesis by (simp add: s pillarStat_def Let_def sqlCountWeak_def)
  next
    case False
    then show ?thesis by (simp add: s pillarStat_def Let_def)
  qed
qed

lemma rankStats_empty: "rankStats asNumber [] = pillarStats asNumber []"
  by (simp add: rankStats_def js_sort_def pillarStats_def PILLARS_def pillarStat_def
      sqlCountWeak_def sqlCountAll_def Let_def cmpWeakPct_def)

lemma rankStats_sort_key:
  assumes "rows \<noteq> []"
  shows "rankStats asNumber rows =
           sort_key (\<lambda>s. - int (weakCount s)) (pillarStats asNumber rows)"
  unfolding rankStats_def
proof (rule js_sort_eq_sort_key, intro ballI)
  fix x y
  assume "x \<in> set (pillarStats asNumber rows)" "y \<in> set (pillarStats asNumber rows)"
  then have "weakPct x = Fin (of_nat (weakCount x) / of_nat (length rows) * 100)"
    and "weakPct y = Fin (of_nat (weakCount y) / of_nat (length rows) * 100)"
    using assms by (simp_all add: weakPct_pillarStats)
  moreover have "0 < (of_nat (length rows) :: real)" using assms by simp
  ultimately show "js_gt (cmpWeakPct x y) (Fin 0) \<longleftrightarrow> - int (weakCount y) < - int (weakCount x)"
    by (simp add: cmpWeakPct_def divide_less_cancel divide_strict_right_mono field_simps)
qed

lemma ranksBefore_iff:
  assumes "rows \<noteq> []"
    and "a \<in> set (pillarStats asNumber rows)" "b \<in> set (pillarStats asNumber rows)"
  shows "ranksBefore a b \<longleftrightarrow>
     - int (weakCount a) < - int (weakCount b) \<or>
     (- int (weakCount a) = - int (weakCount b) \<and> declIndex a < declIndex b)"
proof -
  have "weakPct a = Fin (of_nat (weakCount a) / of_nat (length rows) * 100)"
    and "weakPct b = Fin (of_nat (weakCount b) / of_nat (length rows) * 100)"
    using assms by (simp_all add: weakPct_pillarStats)
  moreover have "0 < (of_nat (length rows) :: real)" using assms by simp
  ultimately show ?thesis
    by (simp add: ranksBefore_def field_simps)
qed

text \<open>
  The sort itself: in the ranked statistics each entry ranks before every later one, by
  a strictly greater weakness rate or, at the same rate, by its earlier place in
  \<^verbatim>\<open>PILLARS\<close>.
\<close>

lemma sorted_rankStats: "sorted_wrt ranksBefore (rankStats asNumber rows)"
proof (cases "rows = []")
  case True
  have "sorted_wrt ranksBefore (pillarStats asNumber [])"
  proof (rule sorted_wrt_mono_rel [OF _ declIndex_pillarStats])
    fix a b
    assume "a \<in> set (pillarStats asNumber [])" "b \<in> set (pillarStats asNumber [])"
      and "declIndex a < declIndex b"
    then show "ranksBefore a b"
      using weakPct_pillarStats [of a asNumber "[]"] weakPct_pillarStats [of b asNumber "[]"]
      by (simp add: ranksBefore_def)
  qed
  with True show ?thesis by (simp add: rankStats_empty)
next
  case False
  let ?k = "\<lambda>s. - int (weakCount s)"
  have "sorted_wrt (\<lambda>a b. ?k a < ?k b \<or> (?k a = ?k b \<and> declIndex a < declIndex b))
          (sort_key ?k (pillarStats asNumber rows))"
    using declIndex_pillarStats by (rule sort_key_lex)
  then have "sorted_wrt ranksBefore (sort_key ?k (pillarStats asNumber rows))"
  proof (rule sorted_wrt_mono_rel [rotated])
    fix a b
    assume "a \<in> set (sort_key ?k (pillarStats asNumber rows))"
      and "b \<in> set (sort_key ?k (pillarStats asNumber rows))"
      and "?k a < ?k b \<or> (?k a = ?k b \<and> declIndex a < declIndex b)"
    then show "ranksBefore a b"
      using ranksBefore_iff [OF False, of a asNumber b] by simp
  qed
  with False show ?thesis by (simp add: rankStats_sort_key)
qed

text \<open>
  The printing loop: it throws exactly when some entry has no average, and when it does
  not it prints every name with the marker of its index.
\<close>

lemma printRanked_error:
  "snd (printRanked index stats) =
     (if \<exists>s \<in> set stats. avgScore s = None then Some TypeError else None)"
proof (induction stats arbitrary: index)
  case Nil
  then show ?case by simp
next
  case (Cons a stats)
  show ?case
  proof (cases "avgScore a")
    case None
    then show ?thesis by simp
  next
    case (Some avg)
    obtain printed err where pr: "printRanked (Suc index) stats = (printed, err)"
      by (cases "printRanked (Suc index) stats")
    with Cons [of "Suc index"]
    have "err = (if \<exists>s \<in> set stats. avgScore s = None then Some TypeError else None)"
      by simp
    with Some pr show ?thesis by simp
  qed
qed

lemma printRanked_all:
  assumes "\<forall>s \<in> set stats. avgScore s \<noteq> None"
  shows "printRanked index stats =
           (map (\<lambda>(i, s). (ps_name s, marker i)) (enumerate index stats), None)"
  using assms by (induction stats arbitrary: index) (auto split: option.splits)

lemma analyzePatterns_flags:
  assumes "analyzePatterns asNumber rows = Inr rep"
  shows "r_ranked rep =
           zip (map ps_name (rankStats asNumber rows))
             ['' <-- PRIMARY WEAKNESS'', '' <-- SECONDARY'', '''', '''', '''', ''''] \<and>
         r_primary rep = rankStats asNumber rows ! 0 \<and>
         r_secondary rep = rankStats asNumber rows ! 1"
proof -
  obtain a b c d e f where l: "rankStats asNumber rows = [a, b, c, d, e, f]"
    using length_rankStats [of asNumber rows]
    by (auto simp: eval_nat_numeral length_Suc_conv)
  obtain printed err where pr: "printRanked 0 (rankStats asNumber rows) = (printed, err)"
    by (cases "printRanked 0 (rankStats asNumber rows)")
  from assms pr have err: "err = None"
    unfolding analyzePatterns_def Let_def by (simp split: option.splits)
  with pr printRanked_error [of 0 "rankStats asNumber rows"]
  have "\<forall>s \<in> set (rankStats asNumber rows). avgScore s \<noteq> None"
    by (auto split: if_splits)
  from printRanked_all [OF this, of 0] pr
  have printed: "printed =
      map (\<lambda>(i, s). (ps_name s, marker i)) (enumerate 0 (rankStats asNumber rows))"
    by simp
  from assms pr err have "r_ranked rep = printed"
    and "r_primary rep = rankStats asNumber rows ! 0"
    and "r_secondary rep = rankStats asNumber rows ! 1"
    unfolding analyzePatterns_def Let_def by (auto split: if_splits)
  then show ?thesis by (simp add: printed l marker_def)
qed

lemma pillarStats_empty:
  "map weakPct (pillarStats asNumber []) = replicate 6 NaN"
  "map avgScore (pillarStats asNumber []) = replicate 6 None"
  "map avgPct (pillarStats asNumber []) = replicate 6 (Fin 0)"
  by (simp_all add: pillarStats_def PILLARS_def pillarStat_def sqlCountWeak_def sqlCountAll_def
      sqlAvg_def Let_def eval_nat_numeral)

lemma printRanked_empty_table:
  "printRanked 0 (pillarStats asNumber []) =
     ([(''Reading'', '' <-- PRIMARY WEAKNESS'')], Some TypeError)"
  by (simp add: pillarStats_def PILLARS_def pillarStat_def sqlAvg_def Let_def marker_def)

text \<open>
  Claim C2.  On an empty table the report does not give zero values: the grouped query
  returns no readiness row, every pillar's weakness rate is \<^verbatim>\<open>0 / 0 * 100\<close>, that is
  \<^verbatim>\<open>NaN\<close>, every average is \<^verbatim>\<open>null\<close>, and printing the first average throws a
  \<^verbatim>\<open>TypeError\<close>.
\<close>

theorem analyzePatterns_empty:
  "analyzePatterns asNumber [] = Inl TypeError \<and>
   map weakPct (pillarStats asNumber []) = replicate 6 NaN \<and>
   map avgScore (pillarStats asNumber []) = replicate 6 None \<and>
   sqlGroupByLevel [] = []"
proof -
  have "analyzePatterns asNumber [] = Inl TypeError"
    unfolding analyzePatterns_def Let_def
    by (simp add: rankStats_empty printRanked_empty_table)
  moreover have "sqlGroupByLevel [] = []"
    by (simp add: sqlGroupByLevel_def sqlLevels_def)
  ultimately show ?thesis using pillarStats_empty [of asNumber] by simp
qed

text \<open>
  Claim C8.  On an empty table the ranking is not carried through.  The six weakness
  rates are all \<^verbatim>\<open>NaN\<close>, so the sort leaves the pillars in their declared order; the
  loop over the ranked statistics prints the first name, Reading, with the primary
  marker, and then throws a \<^verbatim>\<open>TypeError\<close> on its average, which is \<^verbatim>\<open>null\<close>.  The
  second entry is never flagged as secondary, and the function is rejected before it
  takes the first two entries as its primary and secondary findings.
\<close>

theorem ranking_empty_table:
  "map ps_name (rankStats asNumber []) =
     [''Reading'', ''Communication'', ''Logic'', ''Numeracy'', ''Computer'', ''Mindset''] \<and>
   map weakPct (rankStats asNumber []) = replicate 6 NaN \<and>
   printRanked 0 (rankStats asNumber []) =
     ([(''Reading'', '' <-- PRIMARY WEAKNESS'')], Some TypeError) \<and>
   analyzePatterns asNumber [] = Inl TypeError"
proof -
  have "analyzePatterns asNumber [] = Inl TypeError"
    unfolding analyzePatterns_def Let_def
    by (simp add: rankStats_empty printRanked_empty_table)
  then show ?thesis
    by (simp add: rankStats_empty names_pillarStats pillarStats_empty printRanked_empty_table)
qed

section \<open>Properties of the CSV export\<close>

lemma chars_distinct [simp]:
  "comma \<noteq> dquote" "comma \<noteq> LF" "comma \<noteq> CR" "dquote \<noteq> LF" "dquote \<noteq> CR" "LF \<noteq> CR"
  "dquote \<noteq> comma" "LF \<noteq> comma" "CR \<noteq> comma" "LF \<noteq> dquote" "CR \<noteq> dquote" "CR \<noteq> LF"
  by (simp_all add: comma_def dquote_def LF_def CR_def)

lemma plain_Nil [simp]: "plain []"
  by (simp add: plain_def)


lemma plain_append: "plain (xs @ ys) \<longleftrightarrow> plain xs \<and> plain ys"
  by (auto simp: plain_def)

lemma plain_needsQuotes: "plain s \<longleftrightarrow> \<not> needsQuotes s"
  by (simp add: plain_def needsQuotes_def)

subsection \<open>The reader on the fields the export writes\<close>






lemma doubled_Cons:
  "doubled (c # cs) = (if c = dquote then [dquote, dquote] else [c]) @ doubled cs"
  by simp




subsection \<open>Printing and reading integers\<close>









subsection \<open>The text written is the text expected\<close>











lemma firstLine_lines [simp]: "firstLine (concat (map (\<lambda>r. LF # f r) rows)) = []"
  by (cases rows) simp_all



subsection \<open>Reading the export back\<close>

lemma length_expectedRecord: "length (expectedRecord numberText r) = 10"
  by (simp add: expectedRecord_def numericColumns_def)













subsection \<open>The examples\<close>















section \<open>Properties of the storage helpers and of the live quiz endpoint\<close>

lemma getDb_resolves_iff:
  "fst (getDb st) = Inr () \<longleftrightarrow> db_open st \<or> (\<not> load_fails st \<and> \<not> create_fails st)"
  by (simp add: getDb_def initDb_def)

text \<open>
  A \<^verbatim>\<open>CREATE TABLE\<close> that throws rejects the first call only: the variable \<^verbatim>\<open>db\<close> is
  set by then, so the next call resolves.
\<close>

lemma getDb_after_failed_create:
  assumes "\<not> db_open st" "\<not> load_fails st" "create_fails st"
  shows "getDb st = (Inl SqlError, st\<lparr>db_open := True\<rparr>)"
    and "getDb (snd (getDb st)) = (Inr (), st\<lparr>db_open := True\<rparr>)"
  using assms by (simp_all add: getDb_def initDb_def)

text \<open>Rows of equal timestamp are selected in the order of their insertion.\<close>

lemma orderByTimestampDesc_ties:
  assumes "timestamp a = timestamp b"
  shows "orderByTimestampDesc [a, b] = [a, b]"
  using assms by (simp add: orderByTimestampDesc_def)

lemma runInsert_ok_iff:
  "(\<exists>st'. runInsert a st = Inr st') \<longleftrightarrow>
     \<not> engine_fails st \<and> has_table st \<and> bindsAll a \<and>
     (\<exists>sid. sessionId a = Binds (Some sid) \<and> sid \<notin> set (map session_id (db_table st)))"
proof (cases "sessionId a")
  case Unbindable
  then show ?thesis by (simp add: runInsert_def bindsAll_def)
next
  case (Binds v)
  then show ?thesis by (cases v) (auto simp: runInsert_def)
qed

lemma insertAssessment_open:
  assumes "getDb st = (Inr (), st1)"
  shows "fst (insertAssessment a st) =
           (case runInsert a st1 of Inl e \<Rightarrow> Inr False | Inr st' \<Rightarrow> Inr True)"
  using assms by (simp add: insertAssessment_def split: sum.splits)

lemma getAllAssessments_open:
  assumes "getDb st = (Inr (), st1)"
  shows "fst (getAllAssessments st) =
           Inr (if engine_fails st1 \<or> \<not> has_table st1 \<or> db_table st1 = [] then []
                else map selectColumns (orderByTimestampDesc (db_table st1)))"
  using assms by (simp add: getAllAssessments_def execSelectAll_def)

lemma helpers_reject_with_getDb:
  assumes "getDb st = (Inl e, st1)"
  shows "insertAssessment a st = (Inl e, st1)" and "getAllAssessments st = (Inl e, st1)"
  using assms by (simp_all add: insertAssessment_def getAllAssessments_def)

lemma execSelectAll_throws:
  "(\<exists>e. execSelectAll st = Inl e) \<longleftrightarrow> engine_fails st \<or> \<not> has_table st"
  by (simp add: execSelectAll_def)

lemma saveBlock_calls:
  "fst (saveBlock env c results st) \<noteq> [] \<longleftrightarrow>
     c = Flag True \<and> (\<exists>res. results = Some res \<and> assessment_complete res) \<and> \<not> prepare_fails env"
  by (auto simp: saveBlock_def Let_def split: option.splits)

lemma consentDefault_true: "consentDefault c = Flag True \<longleftrightarrow> c = Absent \<or> c = Flag True"
  by (cases c) simp_all

lemma assessmentResults_Some:
  "assessmentResults env d = Some res \<longleftrightarrow> extract_results env (orEmpty (ai_text d)) = Parsed res"
  by (simp add: assessmentResults_def split: extraction.splits)

lemma chatHandler_answer:
  assumes "req_method req = ''POST''" "req_body req = Some b" "messages_ok b"
    and "api_key env = Some k" "k \<noteq> ''''" "upstream_result env = Answer d"
  shows "chatHandler env req st =
           (\<lparr>status = 200, body = AiJson d\<rparr>,
            saveBlock env (consentDefault (consent_prop b)) (assessmentResults env d) st)"
  using assms by (simp add: chatHandler_def Let_def split_beta)

lemma finished_binds: "bindsAll (assessmentData finishedEnv finishedResults)"
  by (simp add: bindsAll_def assessmentData_def finishedEnv_def finishedResults_def scoreOf_def)

text \<open>
  Claim C10, as stated, fails: both helpers await the database handle outside their
  \<^verbatim>\<open>try\<close>, so when the database cannot be opened the call is rejected instead of
  giving \<^verbatim>\<open>false\<close> or an empty array.
\<close>

theorem storage_helpers_counterexample:
  "fst (insertAssessment (assessmentData finishedEnv finishedResults) unopenableDb) =
     Inl InitError \<and>
   fst (getAllAssessments unopenableDb) = Inl InitError"
  by (simp add: insertAssessment_def getAllAssessments_def getDb_def initDb_def
      unopenableDb_def workingDb_def)

text \<open>
  Claim C10, amended.  Once the database handle is obtained, \<^verbatim>\<open>insertAssessment\<close> gives
  \<^verbatim>\<open>true\<close> exactly when the row insert succeeded and \<^verbatim>\<open>false\<close> exactly when it threw,
  and \<^verbatim>\<open>getAllAssessments\<close> gives an array, the empty one both for an empty table and
  for a query that throws.
\<close>

theorem storage_helpers_after_open:
  assumes "getDb st = (Inr (), st1)"
  shows "(fst (insertAssessment a st) = Inr True \<longleftrightarrow> (\<exists>st'. runInsert a st1 = Inr st')) \<and>
         (fst (insertAssessment a st) = Inr False \<longleftrightarrow> (\<exists>e. runInsert a st1 = Inl e)) \<and>
         (\<exists>rows. fst (getAllAssessments st) = Inr rows) \<and>
         (db_table st1 = [] \<or> (\<exists>e. execSelectAll st1 = Inl e) \<longrightarrow>
            fst (getAllAssessments st) = Inr [])"
proof -
  have "fst (insertAssessment a st) = Inr True \<longleftrightarrow> (\<exists>st'. runInsert a st1 = Inr st')"
    by (cases "runInsert a st1") (simp_all add: insertAssessment_open [OF assms])
  moreover have "fst (insertAssessment a st) = Inr False \<longleftrightarrow> (\<exists>e. runInsert a st1 = Inl e)"
    by (cases "runInsert a st1") (simp_all add: insertAssessment_open [OF assms])
  moreover have "\<exists>rows. fst (getAllAssessments st) = Inr rows"
    by (simp add: getAllAssessments_open [OF assms])
  moreover have "db_table st1 = [] \<or> (\<exists>e. execSelectAll st1 = Inl e) \<longrightarrow>
      fst (getAllAssessments st) = Inr []"
    by (auto simp: getAllAssessments_open [OF assms] execSelectAll_throws)
  ultimately show ?thesis by blast
qed

theorem storage_helpers_after_open_witness:
  "getDb workingDb = (Inr (), workingDb\<lparr>db_open := True, has_table := True\<rparr>) \<and>
   fst (insertAssessment (assessmentData finishedEnv finishedResults) workingDb) = Inr True \<and>
   fst (insertAssessment (assessmentData finishedEnv finishedResults)
          (workingDb\<lparr>engine_fails := True\<rparr>)) = Inr False \<and>
   fst (insertAssessment (assessmentData finishedEnv finishedResults)
          (workingDb\<lparr>db_open := True\<rparr>)) = Inr False \<and>
   fst (getAllAssessments workingDb) = Inr [] \<and>
   fst (getAllAssessments (workingDb\<lparr>engine_fails := True\<rparr>)) = Inr [] \<and>
   fst (getAllAssessments (workingDb\<lparr>db_open := True\<rparr>)) = Inr []"
proof -
  let ?a = "assessmentData finishedEnv finishedResults"
  let ?bad = "workingDb\<lparr>engine_fails := True\<rparr>"
  let ?half = "workingDb\<lparr>db_open := True\<rparr>"
  let ?w1 = "workingDb\<lparr>db_open := True, has_table := True\<rparr>"
  let ?bad1 = "workingDb\<lparr>engine_fails := True, db_open := True, has_table := True\<rparr>"
  have o: "getDb workingDb = (Inr (), ?w1)" "getDb ?bad = (Inr (), ?bad1)"
    "getDb ?half = (Inr (), ?half)"
    by (simp_all add: getDb_def initDb_def saveDb_def workingDb_def)
  have r1: "\<exists>st'. runInsert ?a ?w1 = Inr st'"
    by (simp add: runInsert_ok_iff finished_binds) (simp add: workingDb_def assessmentData_def)
  have r2: "\<exists>e. runInsert ?a ?bad1 = Inl e" "\<exists>e. runInsert ?a ?half = Inl e"
    by (simp_all add: runInsert_def workingDb_def)
  have e1: "db_table ?w1 = [] \<or> (\<exists>e. execSelectAll ?w1 = Inl e)"
    by (simp add: workingDb_def)
  have e2: "db_table ?bad1 = [] \<or> (\<exists>e. execSelectAll ?bad1 = Inl e)"
    "db_table ?half = [] \<or> (\<exists>e. execSelectAll ?half = Inl e)"
    by (simp_all add: execSelectAll_def workingDb_def)
  from storage_helpers_after_open [OF o(1), of ?a] r1 e1
  have "fst (insertAssessment ?a workingDb) = Inr True"
    "fst (getAllAssessments workingDb) = Inr []"
    by blast+
  moreover from storage_helpers_after_open [OF o(2), of ?a] r2(1) e2(1)
  have "fst (insertAssessment ?a ?bad) = Inr False" "fst (getAllAssessments ?bad) = Inr []"
    by blast+
  moreover from storage_helpers_after_open [OF o(3), of ?a] r2(2) e2(2)
  have "fst (insertAssessment ?a ?half) = Inr False" "fst (getAllAssessments ?half) = Inr []"
    by blast+
  ultimately show ?thesis using o(1) by simp
qed

text \<open>
  Claim C6, as stated, fails: a request that carries no consent flag at all is treated as
  consenting (the destructuring defaults the flag to \<^verbatim>\<open>true\<close>), and the insert is made.
\<close>

theorem chatHandler_consent_counterexample:
  "postRequest Absent =
     \<lparr>req_method = ''POST'', req_body = Some \<lparr>messages_ok = True, consent_prop = Absent\<rparr>\<rparr> \<and>
   Absent \<noteq> Flag True \<and>
   fst (snd (chatHandler finishedEnv (postRequest Absent) workingDb)) =
     [assessmentData finishedEnv finishedResults] \<and>
   map session_id (db_table (snd (snd (chatHandler finishedEnv (postRequest Absent) workingDb)))) =
     [''session_1767430800000_k3x9q'']"
  by (simp add: chatHandler_def postRequest_def finishedEnv_def saveBlock_def
      assessmentResults_def finishedResults_def insertAssessment_def getDb_def initDb_def
      runInsert_def bindsAll_def saveDb_def workingDb_def assessmentData_def scoreOf_def
      Let_def)

text \<open>
  Claim C6, amended.  For a well-formed request that the language model answered, the
  handler answers 200 with the model's data whatever the save block did; the insert is
  called exactly when the consent flag is \<^verbatim>\<open>true\<close> or absent from the request, a result
  with a true \<^verbatim>\<open>assessment_complete\<close> was parsed, and preparing the insert did not
  throw; and with no match or an unparsable result nothing is called and nothing is
  stored.
\<close>

theorem chatHandler_persistence:
  assumes "req_method req = ''POST''" "req_body req = Some b" "messages_ok b"
    and "api_key env = Some k" "k \<noteq> ''''" "upstream_result env = Answer d"
  shows "fst (chatHandler env req st) = \<lparr>status = 200, body = AiJson d\<rparr> \<and>
         (fst (snd (chatHandler env req st)) \<noteq> [] \<longleftrightarrow>
            (consent_prop b = Absent \<or> consent_prop b = Flag True) \<and>
            (\<exists>res. extract_results env (orEmpty (ai_text d)) = Parsed res \<and>
                   assessment_complete res) \<and>
            \<not> prepare_fails env) \<and>
         (extract_results env (orEmpty (ai_text d)) = NoMatch \<or>
          extract_results env (orEmpty (ai_text d)) = ParseThrows \<longrightarrow>
            snd (chatHandler env req st) = ([], st))"
proof -
  note h = chatHandler_answer [OF assms, of st]
  have "fst (chatHandler env req st) = \<lparr>status = 200, body = AiJson d\<rparr>"
    by (simp add: h)
  moreover have "fst (snd (chatHandler env req st)) \<noteq> [] \<longleftrightarrow>
            (consent_prop b = Absent \<or> consent_prop b = Flag True) \<and>
            (\<exists>res. extract_results env (orEmpty (ai_text d)) = Parsed res \<and>
                   assessment_complete res) \<and>
            \<not> prepare_fails env"
    unfolding h by (simp only: snd_conv saveBlock_calls consentDefault_true assessmentResults_Some)
  moreover have "extract_results env (orEmpty (ai_text d)) = NoMatch \<or>
          extract_results env (orEmpty (ai_text d)) = ParseThrows \<longrightarrow>
            snd (chatHandler env req st) = ([], st)"
    by (auto simp: h saveBlock_def assessmentResults_def)
  ultimately show ?thesis by blast
qed

theorem chatHandler_persistence_witness:
  "chatHandler finishedEnv (postRequest (Flag True)) unopenableDb =
     (\<lparr>status = 200, body = AiJson \<lparr>ai_text = Some ''results'', ai_payload = ''payload''\<rparr>\<rparr>,
      [assessmentData finishedEnv finishedResults], unopenableDb) \<and>
   chatHandler finishedEnv (postRequest (Flag False)) workingDb =
     (\<lparr>status = 200, body = AiJson \<lparr>ai_text = Some ''results'', ai_payload = ''payload''\<rparr>\<rparr>,
      [], workingDb) \<and>
   chatHandler (finishedEnv\<lparr>extract_results := \<lambda>_. ParseThrows\<rparr>) (postRequest (Flag True))
       workingDb =
     (\<lparr>status = 200, body = AiJson \<lparr>ai_text = Some ''results'', ai_payload = ''payload''\<rparr>\<rparr>,
      [], workingDb)"
proof -
  let ?d = "\<lparr>ai_text = Some ''results'', ai_payload = ''payload''\<rparr>"
  let ?env' = "finishedEnv\<lparr>extract_results := \<lambda>_. ParseThrows\<rparr>"
  have r: "req_method (postRequest c) = ''POST''"
    "req_body (postRequest c) = Some \<lparr>messages_ok = True, consent_prop = c\<rparr>"
    "messages_ok \<lparr>messages_ok = True, consent_prop = c\<rparr>" for c
    by (simp_all add: postRequest_def)
  have e: "api_key finishedEnv = Some ''key''" "''key'' \<noteq> ''''"
    "upstream_result finishedEnv = Answer ?d"
    "api_key ?env' = Some ''key''" "upstream_result ?env' = Answer ?d"
    by (simp_all add: finishedEnv_def)
  note t1 = chatHandler_persistence [OF r e(1,2,3), of "Flag True" unopenableDb]
  note t2 = chatHandler_persistence [OF r e(1,2,3), of "Flag False" workingDb]
  note t3 = chatHandler_persistence [OF r e(4,2,5), of "Flag True" workingDb]
  have c1: "snd (chatHandler finishedEnv (postRequest (Flag True)) unopenableDb) =
      ([assessmentData finishedEnv finishedResults], unopenableDb)"
    by (simp add: chatHandler_def postRequest_def finishedEnv_def saveBlock_def
        assessmentResults_def finishedResults_def insertAssessment_def getDb_def initDb_def
        unopenableDb_def workingDb_def Let_def)
  have c2: "snd (chatHandler finishedEnv (postRequest (Flag False)) workingDb) = ([], workingDb)"
    by (simp add: chatHandler_def postRequest_def finishedEnv_def saveBlock_def
        assessmentResults_def finishedResults_def Let_def)
  have "extract_results ?env' (orEmpty (ai_text ?d)) = ParseThrows" by simp
  with t3 have c3: "snd (chatHandler ?env' (postRequest (Flag True)) workingDb) = ([], workingDb)"
    by blast
  from t1 c1 have "chatHandler finishedEnv (postRequest (Flag True)) unopenableDb =
     (\<lparr>status = 200, body = AiJson ?d\<rparr>, [assessmentData finishedEnv finishedResults], unopenableDb)"
    by (metis prod.collapse)
  moreover from t2 c2 have "chatHandler finishedEnv (postRequest (Flag False)) workingDb =
     (\<lparr>status = 200, body = AiJson ?d\<rparr>, [], workingDb)"
    by (metis prod.collapse)
  moreover from t3 c3 have "chatHandler ?env' (postRequest (Flag True)) workingDb =
     (\<lparr>status = 200, body = AiJson ?d\<rparr>, [], workingDb)"
    by (metis prod.collapse)
  ultimately show ?thesis by (intro conjI)
qed

end
